theory Spec2Isabelle
  imports Complex_Main "HOL-Library.AList"
begin

section \<open>Python values of the configuration\<close>

text \<open>
  The configuration is what \<^verbatim>\<open>yaml.load\<close> returns: nested mappings, sequences and
  scalars. Mappings keep their insertion order (an association list, read with
  \<open>map_of\<close> and written with \<open>AList.update\<close>, which keeps the position of a key that is
  already there, as a Python dict does). Mapping keys are strings; YAML anchors (two
  paths to one shared object) and non-finite floats are not represented.
\<close>

datatype pyval =
    PNone
  | PBool bool
  | PInt int
  | PFloat rat
  | PStr string
  | PList "pyval list"
  | PDict "(string \<times> pyval) list"

text \<open>
  Exceptions as values. \<open>Raised\<close> stands for whatever an external call (torch, pickle,
  the sibling modules) raises.
\<close>

datatype error = KeyError string | TypeError | Raised string

text \<open>Truth value of a Python object, as \<^verbatim>\<open>if v:\<close> and \<^verbatim>\<open>not v\<close> test it.\<close>

fun truthy :: "pyval \<Rightarrow> bool" where
  "truthy PNone = False"
| "truthy (PBool b) = b"
| "truthy (PInt i) = (i \<noteq> 0)"
| "truthy (PFloat r) = (r \<noteq> 0)"
| "truthy (PStr s) = (s \<noteq> [])"
| "truthy (PList xs) = (xs \<noteq> [])"
| "truthy (PDict d) = (d \<noteq> [])"

text \<open>\<^verbatim>\<open>a and b\<close>: the first operand when it is falsy, the second otherwise.\<close>

definition py_and :: "pyval \<Rightarrow> pyval \<Rightarrow> pyval" where
  "py_and a b = (if truthy a then b else a)"

text \<open>\<^verbatim>\<open>v[k]\<close> with a string key: only a mapping can be subscripted by a string.\<close>

fun getitem :: "pyval \<Rightarrow> string \<Rightarrow> error + pyval" where
  "getitem (PDict d) k = (case map_of d k of None \<Rightarrow> Inl (KeyError k) | Some v \<Rightarrow> Inr v)"
| "getitem _ k = Inl TypeError"

text \<open>\<^verbatim>\<open>v[k] = x\<close> with a string key.\<close>

fun setitem :: "pyval \<Rightarrow> string \<Rightarrow> pyval \<Rightarrow> error + pyval" where
  "setitem (PDict d) k x = Inr (PDict (AList.update k x d))"
| "setitem _ k x = Inl TypeError"

fun is_substring :: "string \<Rightarrow> string \<Rightarrow> bool" where
  "is_substring k [] = (k = [])"
| "is_substring k (c # cs) = (take (length k) (c # cs) = k \<or> is_substring k cs)"

text \<open>
  \<^verbatim>\<open>k in v\<close> with a string \<open>k\<close>: key membership for a mapping, substring test for a
  string, element test for a sequence, TypeError for the scalars that are not iterable.
\<close>

fun contains :: "string \<Rightarrow> pyval \<Rightarrow> error + bool" where
  "contains k (PDict d) = Inr (map_of d k \<noteq> None)"
| "contains k (PStr s) = Inr (is_substring k s)"
| "contains k (PList xs) = Inr (PStr k \<in> set xs)"
| "contains k _ = Inl TypeError"

text \<open>\<^verbatim>\<open>f(**v)\<close>: the keyword arguments must come from a mapping.\<close>

fun kwargs :: "pyval \<Rightarrow> error + (string \<times> pyval) list" where
  "kwargs (PDict d) = Inr d"
| "kwargs _ = Inl TypeError"

section \<open>The observable run: log lines and external calls\<close>

text \<open>
  Modelled from the spec: \<^verbatim>\<open>utils.log\<close> is not part of the sources at hand; the
  spec describes a log stream of human-readable lines. A call \<^verbatim>\<open>log(msg, logfile)\<close>
  is recorded as the event \<open>Log msg logfile\<close>, where \<open>msg\<close> names the format string
  of the call site and carries the values formatted into it.
\<close>

datatype msg =
    MsgConfig pyval
  | MsgLoadingVocabularies
  | MsgLoadingDatasets
  | MsgDatasetSizes "(string \<times> nat) list"
  | MsgReviewVocabSize nat
  | MsgSummaryVocabSize nat
  | MsgModel
  | MsgLoadingCheckpoint string
  | MsgVersionMismatch
  | MsgNoCheckpoint string
  | MsgOptimizer
  | MsgScheduler
  | MsgBeginTraining
  | MsgTestingOn pyval
  | MsgInvalidMode pyval

datatype optim_class = SGD | RMSprop | Adam

datatype event =
    Log msg "string option"
  | YamlLoad string
  | ManualSeed pyval
  | CudaManualSeed pyval
  | Makedirs pyval
  | PickleLoad string
  | NewReviewsDataset string string
  | GetSampler string "pyval option"
  | NewDataLoader string bool bool
  | NewHAN "(string \<times> pyval) list"
  | CopyReviewVectors nat
  | CopySummaryVectors nat
  | ToCuda
  | TorchLoad string
  | LoadStateDict
  | OptimizerLoadStateDict
  | NewOptimizer optim_class pyval
  | NewCriterion
  | NewScheduler pyval pyval
  | TrainModel
  | TestModel

text \<open>
  The state threaded through the program: the events so far, and the next free object
  identity (every unpickled vocabulary is a new object).
\<close>

record world =
  trace :: "event list"
  next_id :: nat

type_synonym 'a prog = "world \<Rightarrow> (error + 'a) \<times> world"

definition ret :: "'a \<Rightarrow> 'a prog" where
  "ret a = (\<lambda>w. (Inr a, w))"

definition of_result :: "error + 'a \<Rightarrow> 'a prog" where
  "of_result r = (\<lambda>w. (r, w))"

text \<open>Sequencing: an exception ends the run with the events emitted so far.\<close>

definition bnd :: "'a prog \<Rightarrow> ('a \<Rightarrow> 'b prog) \<Rightarrow> 'b prog" where
  "bnd m f = (\<lambda>w. case m w of (Inl e, w') \<Rightarrow> (Inl e, w') | (Inr a, w') \<Rightarrow> f a w')"

definition emit :: "event \<Rightarrow> unit prog" where
  "emit e = (\<lambda>w. (Inr (), w\<lparr>trace := trace w @ [e]\<rparr>))"

text \<open>An external call: recorded, then it returns or raises.\<close>

definition call :: "event \<Rightarrow> error + 'a \<Rightarrow> 'a prog" where
  "call e r = bnd (emit e) (\<lambda>_. of_result r)"

definition log' :: "msg \<Rightarrow> string option \<Rightarrow> unit prog" where
  "log' m logfile = emit (Log m logfile)"

section \<open>Objects of the libraries and of the sibling modules\<close>

text \<open>
  \<open>'x\<close> is the universe of objects that \<^verbatim>\<open>main.py\<close> only passes around: the model,
  the optimizer, tensors, state dictionaries, samplers, datasets, version tags.
\<close>

text \<open>
  Modelled from the spec: the vocabulary class is not part of the sources at hand. The
  spec describes an ordered token-to-index mapping with a parallel matrix of pretrained
  vectors; \<^verbatim>\<open>len(vocab)\<close> is the number of tokens. \<open>oid\<close> is the object's identity.
\<close>

record 'x vocab =
  oid :: nat
  itos :: "string list"
  vectors :: 'x

definition vocab_len :: "'x vocab \<Rightarrow> nat" where
  "vocab_len v = length (itos v)"

text \<open>
  What \<^verbatim>\<open>torch.load\<close> returns: a mapping read at five keys; \<open>None\<close> is an absent
  key.
\<close>

record 'x checkpoint =
  ck_epoch :: "pyval option"
  ck_fscore :: "pyval option"
  ck_model_version :: "'x option"
  ck_state_dict :: "'x option"
  ck_optimizer :: "'x option"

definition ck_getitem :: "'a option \<Rightarrow> string \<Rightarrow> error + 'a" where
  "ck_getitem field k = (case field of None \<Rightarrow> Inl (KeyError k) | Some v \<Rightarrow> Inr v)"

text \<open>The arguments a \<^verbatim>\<open>DataLoader\<close> is constructed with.\<close>

record 'x dataloader =
  dl_dataset :: 'x
  dl_batch_size :: pyval
  dl_shuffle :: bool
  dl_sampler :: "'x option"

text \<open>The arguments of \<^verbatim>\<open>train_model\<close> and \<^verbatim>\<open>test_model\<close>.\<close>

record 'x train_args =
  tr_model :: 'x
  tr_dataloaders :: "(string \<times> 'x dataloader) list"
  tr_criterion :: 'x
  tr_optimizer :: 'x
  tr_scheduler :: 'x
  tr_save_dir :: pyval
  tr_num_epochs :: pyval
  tr_use_gpu :: pyval
  tr_best_fscore :: pyval
  tr_start_epoch :: pyval
  tr_logfile :: "string option"

record 'x test_args =
  te_model :: 'x
  te_dataloader :: "'x dataloader"
  te_outputfile :: pyval
  te_use_gpu :: pyval
  te_logfile :: "string option"

text \<open>
  Everything \<^verbatim>\<open>main.py\<close> calls and does not define: the operating system
  (\<^verbatim>\<open>os.path.join\<close>, \<^verbatim>\<open>os.path.exists\<close>, the files as the run finds them),
  torch, and the sibling modules \<^verbatim>\<open>dataset\<close>, \<^verbatim>\<open>model\<close>, \<^verbatim>\<open>train\<close>. Each may return
  or raise; no property below assumes more of them.
\<close>

record 'x externals =
  path_join :: "string \<Rightarrow> string \<Rightarrow> string"
  path_exists :: "string \<Rightarrow> bool"
  yaml_load :: "string \<Rightarrow> error + pyval"
  pickle_load :: "string \<Rightarrow> error + (string list \<times> 'x)"
  torch_load :: "string \<Rightarrow> error + 'x checkpoint"
  cuda_is_available :: bool
  ReviewsDataset :: "string \<Rightarrow> 'x vocab \<Rightarrow> 'x vocab \<Rightarrow> error + 'x"
  dataset_len :: "'x \<Rightarrow> nat"
  get_sampler :: "'x \<Rightarrow> pyval option \<Rightarrow> error + 'x"
  DataLoader :: "'x dataloader \<Rightarrow> error + unit"
  HAN :: "(string \<times> pyval) list \<Rightarrow> error + 'x"
  version :: "'x \<Rightarrow> 'x"
  copy_review_lookup :: "'x \<Rightarrow> 'x \<Rightarrow> error + 'x"
  copy_summary_lookup :: "'x \<Rightarrow> 'x \<Rightarrow> error + 'x"
  cuda :: "'x \<Rightarrow> error + 'x"
  load_state_dict :: "'x \<Rightarrow> 'x \<Rightarrow> error + 'x"
  optimizer_load_state_dict :: "'x \<Rightarrow> 'x \<Rightarrow> error + 'x"
  new_optimizer :: "optim_class \<Rightarrow> 'x \<Rightarrow> (string \<times> pyval) list \<Rightarrow> error + 'x"
  CrossEntropyLoss :: 'x
  ReduceLROnPlateau :: "'x \<Rightarrow> pyval \<Rightarrow> pyval \<Rightarrow> error + 'x"
  train_model :: "'x train_args \<Rightarrow> error + 'x"
  test_model :: "'x test_args \<Rightarrow> error + unit"
  manual_seed :: "pyval \<Rightarrow> error + unit"
  cuda_manual_seed :: "pyval \<Rightarrow> error + unit"
  makedirs :: "pyval \<Rightarrow> error + unit"

text \<open>\<^verbatim>\<open>join(a, b)\<close>: both arguments must be strings.\<close>

fun join :: "'x externals \<Rightarrow> pyval \<Rightarrow> pyval \<Rightarrow> error + string" where
  "join X (PStr a) (PStr b) = Inr (path_join X a b)"
| "join X _ _ = Inl TypeError"

section \<open>reload\<close>

text \<open>
  Lines 81 to 101. The model and the optimizer are mutated in place by
  \<^verbatim>\<open>load_state_dict\<close>; here the updated objects are returned.
\<close>

definition reload ::
  "'x externals \<Rightarrow> pyval \<Rightarrow> 'x \<Rightarrow> 'x option \<Rightarrow> string option
     \<Rightarrow> ('x \<times> 'x option \<times> pyval \<times> pyval) prog" where
  "reload X config0 model optimizer logfile =
     bnd (of_result (getitem config0 ''save_dir'')) (\<lambda>save_dir.
     bnd (of_result (getitem config0 ''model'')) (\<lambda>config.
     bnd (of_result (contains ''reload'' config)) (\<lambda>has_reload.
     if has_reload then
       bnd (of_result (getitem config ''reload'')) (\<lambda>r.
       bnd (of_result (join X save_dir r)) (\<lambda>reload_path.
       if path_exists X reload_path then
         bnd (log' (MsgLoadingCheckpoint reload_path) logfile) (\<lambda>_.
         bnd (call (TorchLoad reload_path) (torch_load X reload_path)) (\<lambda>checkpoint.
         bnd (of_result (ck_getitem (ck_model_version checkpoint) ''model_version'')) (\<lambda>v.
         bnd (if version X model \<noteq> v then log' MsgVersionMismatch None else ret ()) (\<lambda>_.
         bnd (of_result (ck_getitem (ck_epoch checkpoint) ''epoch'')) (\<lambda>start_epoch.
         bnd (of_result (ck_getitem (ck_fscore checkpoint) ''fscore'')) (\<lambda>best_fscore.
         bnd (of_result (ck_getitem (ck_state_dict checkpoint) ''state_dict'')) (\<lambda>sd.
         bnd (call LoadStateDict (load_state_dict X model sd)) (\<lambda>model'.
         case optimizer of
           None \<Rightarrow> ret (model', None, best_fscore, start_epoch)
         | Some opt \<Rightarrow>
             bnd (of_result (ck_getitem (ck_optimizer checkpoint) ''optimizer'')) (\<lambda>osd.
             bnd (call OptimizerLoadStateDict (optimizer_load_state_dict X opt osd)) (\<lambda>opt'.
             ret (model', Some opt', best_fscore, start_epoch)))))))))))
       else
         bnd (log' (MsgNoCheckpoint reload_path) logfile) (\<lambda>_.
         ret (model, optimizer, PInt 0, PInt 0))))
     else ret (model, optimizer, PInt 0, PInt 0))))"

section \<open>load_datasets\<close>

text \<open>\<^verbatim>\<open>d[k]\<close> on a dictionary the program built itself.\<close>

definition lookup :: "(string \<times> 'a) list \<Rightarrow> string \<Rightarrow> 'a prog" where
  "lookup d k = of_result (case map_of d k of None \<Rightarrow> Inl (KeyError k) | Some v \<Rightarrow> Inr v)"

text \<open>
  A dictionary comprehension \<^verbatim>\<open>{x: f(x) for x in phases}\<close>: the values are computed in
  the order of \<open>phases\<close>, a repeated key keeps its first position and its last value.
\<close>

fun dict_comp :: "(string \<Rightarrow> 'a prog) \<Rightarrow> string list \<Rightarrow> (string \<times> 'a) list
    \<Rightarrow> (string \<times> 'a) list prog" where
  "dict_comp f [] acc = ret acc"
| "dict_comp f (x # xs) acc = bnd (f x) (\<lambda>v. dict_comp f xs (AList.update x v acc))"

text \<open>
  \<^verbatim>\<open>pickle.load(open(path, 'rb'))\<close>: opening or unpickling may raise; what is
  returned is a new object.
\<close>

definition unpickle_vocab :: "'x externals \<Rightarrow> string \<Rightarrow> 'x vocab prog" where
  "unpickle_vocab X path =
     bnd (call (PickleLoad path) (pickle_load X path)) (\<lambda>(toks, vecs) w.
       (Inr \<lparr>oid = next_id w, itos = toks, vectors = vecs\<rparr>, w\<lparr>next_id := Suc (next_id w)\<rparr>))"

definition new_dataloader :: "'x externals \<Rightarrow> string \<Rightarrow> 'x dataloader \<Rightarrow> 'x dataloader prog" where
  "new_dataloader X x dl =
     bnd (call (NewDataLoader x (dl_shuffle dl) (dl_sampler dl \<noteq> None)) (DataLoader X dl))
       (\<lambda>_. ret dl)"

text \<open>Lines 34 to 58: the datasets and the loaders of the phases.\<close>

definition load_phases ::
  "'x externals \<Rightarrow> pyval \<Rightarrow> string list \<Rightarrow> string option \<Rightarrow> 'x vocab \<Rightarrow> 'x vocab
     \<Rightarrow> ((string \<times> 'x dataloader) list \<times> 'x vocab \<times> 'x vocab) prog" where
  "load_phases X config phases logfile review_vocab summary_vocab =
     bnd (log' MsgLoadingDatasets logfile) (\<lambda>_.
     bnd (dict_comp (\<lambda>x. bnd (of_result (getitem config x)) (\<lambda>c.
                          of_result (getitem c ''jsonfile''))) phases []) (\<lambda>datafiles.
     bnd (dict_comp (\<lambda>x. bnd (of_result (getitem config ''dir'')) (\<lambda>dir.
                          bnd (lookup datafiles x) (\<lambda>f.
                          bnd (of_result (join X dir f)) (\<lambda>p.
                          call (NewReviewsDataset x p)
                            (ReviewsDataset X p review_vocab summary_vocab))))) phases [])
         (\<lambda>datasets.
     bnd (of_result (contains ''weights'' config)) (\<lambda>has_weights.
     bnd (if has_weights
          then bnd (of_result (getitem config ''weights'')) (\<lambda>wt. ret (\<not> truthy wt))
          else ret True) (\<lambda>unweighted.
     bnd (if unweighted then
            dict_comp (\<lambda>x. bnd (lookup datasets x) (\<lambda>ds.
                           bnd (of_result (getitem config x)) (\<lambda>c.
                           bnd (of_result (getitem c ''batch_size'')) (\<lambda>bs.
                           new_dataloader X x
                             \<lparr>dl_dataset = ds, dl_batch_size = bs,
                              dl_shuffle = (x = ''train''), dl_sampler = None\<rparr>)))) phases []
          else
            bnd (of_result (getitem config ''weights'')) (\<lambda>wt.
            bnd (dict_comp (\<lambda>x. if x = ''train''
                                 then bnd (lookup datasets x) (\<lambda>ds.
                                      bnd (call (GetSampler x
                                                  (if wt = PStr ''weighted'' then None else Some wt))
                                             (get_sampler X ds
                                                  (if wt = PStr ''weighted'' then None else Some wt)))
                                        (\<lambda>s. ret (Some s)))
                                 else ret None) phases []) (\<lambda>samplers.
            dict_comp (\<lambda>x. bnd (lookup datasets x) (\<lambda>ds.
                           bnd (of_result (getitem config x)) (\<lambda>c.
                           bnd (of_result (getitem c ''batch_size'')) (\<lambda>bs.
                           bnd (lookup samplers x) (\<lambda>s.
                           new_dataloader X x
                             \<lparr>dl_dataset = ds, dl_batch_size = bs,
                              dl_shuffle = False, dl_sampler = s\<rparr>))))) phases [])))
         (\<lambda>dataloaders.
     bnd (dict_comp (\<lambda>x. bnd (lookup datasets x) (\<lambda>ds. ret (dataset_len X ds))) phases [])
         (\<lambda>dataset_sizes.
     bnd (log' (MsgDatasetSizes dataset_sizes) logfile) (\<lambda>_.
     bnd (log' (MsgReviewVocabSize (length (itos review_vocab))) logfile) (\<lambda>_.
     bnd (log' (MsgSummaryVocabSize (length (itos summary_vocab))) logfile) (\<lambda>_.
     ret (dataloaders, review_vocab, summary_vocab)))))))))))"

text \<open>
  Lines 24 to 58; lines 34 to 58 are \<open>load_phases\<close>. On line 29
  \<^verbatim>\<open>config['review_vocab']\<close> is a string (line 28 joined it to a path), and a string
  is equal to an equal string only, so \<^verbatim>\<open>!=\<close> is \<open>\<noteq>\<close>.
\<close>

definition load_datasets ::
  "'x externals \<Rightarrow> pyval \<Rightarrow> string list \<Rightarrow> string option
     \<Rightarrow> ((string \<times> 'x dataloader) list \<times> 'x vocab \<times> 'x vocab) prog" where
  "load_datasets X config0 phases logfile =
     bnd (of_result (getitem config0 ''data'')) (\<lambda>config.
     bnd (log' MsgLoadingVocabularies logfile) (\<lambda>_.
     bnd (of_result (getitem config ''dir'')) (\<lambda>dir.
     bnd (of_result (getitem config ''review_vocab'')) (\<lambda>rv.
     bnd (of_result (join X dir rv)) (\<lambda>rv_path.
     bnd (unpickle_vocab X rv_path) (\<lambda>review_vocab.
     bnd (of_result (getitem config ''summary_vocab'')) (\<lambda>sv.
     bnd (if rv \<noteq> sv
          then bnd (of_result (join X dir sv)) (unpickle_vocab X)
          else ret review_vocab) (\<lambda>summary_vocab.
     load_phases X config phases logfile review_vocab summary_vocab))))))))"

section \<open>build_model\<close>

text \<open>
  \<^verbatim>\<open>config[p1][p2]...[k] = v\<close>: the innermost mapping is written in place, so the
  caller's configuration changes; here the changed configuration is built.
\<close>

fun setitem_at :: "pyval \<Rightarrow> string list \<Rightarrow> string \<Rightarrow> pyval \<Rightarrow> error + pyval" where
  "setitem_at c [] k v = setitem c k v"
| "setitem_at c (p # ps) k v =
     (case getitem c p of
        Inl e \<Rightarrow> Inl e
      | Inr sub \<Rightarrow> (case setitem_at sub ps k v of
                     Inl e \<Rightarrow> Inl e
                   | Inr sub' \<Rightarrow> setitem c p sub'))"

text \<open>
  Lines 61 to 78. The result is the model together with the configuration as the
  caller finds it after the call.
\<close>

definition build_model ::
  "'x externals \<Rightarrow> pyval \<Rightarrow> 'x vocab \<Rightarrow> 'x vocab \<Rightarrow> string option \<Rightarrow> ('x \<times> pyval) prog" where
  "build_model X config0 review_vocab summary_vocab logfile =
     bnd (of_result (getitem config0 ''use_gpu'')) (\<lambda>use_gpu.
     bnd (of_result (setitem_at config0 [''model'', ''params''] ''review_vocab_size''
                        (PInt (int (vocab_len review_vocab))))) (\<lambda>config1.
     bnd (of_result (setitem_at config1 [''model'', ''params''] ''summary_vocab_size''
                        (PInt (int (vocab_len summary_vocab))))) (\<lambda>config2.
     bnd (of_result (setitem_at config2 [''model'', ''params''] ''use_gpu'' use_gpu)) (\<lambda>config3.
     bnd (of_result (getitem config3 ''model'')) (\<lambda>config.
     bnd (of_result (getitem config ''params'')) (\<lambda>params.
     bnd (of_result (kwargs params)) (\<lambda>kw.
     bnd (call (NewHAN kw) (HAN X kw)) (\<lambda>model.
     bnd (log' MsgModel logfile) (\<lambda>_.
     bnd (call (CopyReviewVectors (oid review_vocab))
            (copy_review_lookup X model (vectors review_vocab))) (\<lambda>model1.
     bnd (of_result (contains ''combined_lookup'' params)) (\<lambda>has_combined.
     bnd (if has_combined then ret config3
          else of_result (setitem_at config3 [''model'', ''params''] ''combined_lookup''
                            (PBool False))) (\<lambda>config4.
     bnd (of_result (getitem config4 ''model'')) (\<lambda>config'.
     bnd (of_result (getitem config' ''params'')) (\<lambda>params'.
     bnd (of_result (getitem params' ''use_summary'')) (\<lambda>use_summary.
     bnd (if truthy use_summary
          then bnd (of_result (getitem params' ''combined_lookup'')) (\<lambda>cl. ret (\<not> truthy cl))
          else ret False) (\<lambda>separate_summary.
     bnd (if separate_summary
          then call (CopySummaryVectors (oid summary_vocab))
                 (copy_summary_lookup X model1 (vectors summary_vocab))
          else ret model1) (\<lambda>model2.
     bnd (if truthy use_gpu then call ToCuda (cuda X model2) else ret model2) (\<lambda>model3.
     ret (model3, config4)))))))))))))))))))"

section \<open>main\<close>

text \<open>Lines 127 to 139: the training branch once the optimizer is constructed.\<close>

definition main_train ::
  "'x externals \<Rightarrow> pyval \<Rightarrow> 'x \<Rightarrow> (string \<times> 'x dataloader) list \<Rightarrow> string \<Rightarrow> 'x \<Rightarrow> unit prog" where
  "main_train X config model dataloaders logfile optimizer =
     bnd (reload X config model (Some optimizer) (Some logfile))
       (\<lambda>(model', optimizer', best_fscore, start_epoch).
     bnd (log' MsgOptimizer (Some logfile)) (\<lambda>_.
     bnd (emit NewCriterion) (\<lambda>_.
     bnd (of_result (getitem config ''optim'')) (\<lambda>optim.
     bnd (of_result (getitem optim ''scheduler'')) (\<lambda>sch.
     bnd (of_result (getitem sch ''patience'')) (\<lambda>patience.
     bnd (of_result (getitem config ''optim'')) (\<lambda>optim.
     bnd (of_result (getitem optim ''scheduler'')) (\<lambda>sch.
     bnd (of_result (getitem sch ''factor'')) (\<lambda>factor.
     bnd (of_result (case optimizer' of None \<Rightarrow> Inl TypeError | Some opt \<Rightarrow> Inr opt)) (\<lambda>opt.
     bnd (call (NewScheduler patience factor) (ReduceLROnPlateau X opt patience factor))
       (\<lambda>scheduler.
     bnd (log' MsgScheduler (Some logfile)) (\<lambda>_.
     bnd (log' MsgBeginTraining (Some logfile)) (\<lambda>_.
     bnd (of_result (getitem config ''save_dir'')) (\<lambda>save_dir.
     bnd (of_result (getitem config ''training'')) (\<lambda>training.
     bnd (of_result (getitem training ''n_epochs'')) (\<lambda>n_epochs.
     bnd (of_result (getitem config ''use_gpu'')) (\<lambda>use_gpu.
     bnd (call TrainModel (train_model X
            \<lparr>tr_model = model', tr_dataloaders = dataloaders,
             tr_criterion = CrossEntropyLoss X, tr_optimizer = opt, tr_scheduler = scheduler,
             tr_save_dir = save_dir, tr_num_epochs = n_epochs, tr_use_gpu = use_gpu,
             tr_best_fscore = best_fscore, tr_start_epoch = start_epoch,
             tr_logfile = Some logfile\<rparr>)) (\<lambda>_.
     ret ()))))))))))))))))))"

text \<open>
  Lines 104 to 146. \<open>build_model\<close> writes into the configuration, and the lines after it
  read the written configuration.
\<close>

definition main :: "'x externals \<Rightarrow> pyval \<Rightarrow> unit prog" where
  "main X config0 =
     bnd (of_result (getitem config0 ''save_dir'')) (\<lambda>save_dir.
     bnd (of_result (join X save_dir (PStr ''log''))) (\<lambda>logfile.
     bnd (log' (MsgConfig config0) (Some logfile)) (\<lambda>_.
     bnd (of_result (getitem config0 ''mode'')) (\<lambda>mode.
     bnd (load_datasets X config0
            (if mode = PStr ''test'' then [''test''] else [''train'', ''val'']) (Some logfile))
       (\<lambda>(dataloaders, review_vocab, summary_vocab).
     bnd (build_model X config0 review_vocab summary_vocab (Some logfile)) (\<lambda>(model, config).
     bnd (of_result (getitem config ''mode'')) (\<lambda>mode.
     if mode = PStr ''train'' then
       bnd (of_result (getitem config ''optim'')) (\<lambda>optim.
       bnd (of_result (getitem optim ''class'')) (\<lambda>cls.
       bnd (of_result (getitem optim ''params'')) (\<lambda>params.
       bnd (of_result (kwargs params)) (\<lambda>kw.
       bnd (if cls = PStr ''sgd'' then
              call (NewOptimizer SGD params) (new_optimizer X SGD model kw)
            else if cls = PStr ''rmsprop'' then
              call (NewOptimizer RMSprop params) (new_optimizer X RMSprop model kw)
            else
              call (NewOptimizer Adam params) (new_optimizer X Adam model kw))
         (main_train X config model dataloaders logfile)))))
     else if mode = PStr ''test'' then
       bnd (reload X config model None (Some logfile)) (\<lambda>(model', _, _, _).
       bnd (of_result (getitem config ''data'')) (\<lambda>data.
       bnd (of_result (getitem data ''test'')) (\<lambda>test.
       bnd (of_result (getitem test ''jsonfile'')) (\<lambda>jsonfile.
       bnd (log' (MsgTestingOn jsonfile) None) (\<lambda>_.
       bnd (lookup dataloaders ''test'') (\<lambda>dl.
       bnd (of_result (getitem config ''outputfile'')) (\<lambda>outputfile.
       bnd (of_result (getitem config ''use_gpu'')) (\<lambda>use_gpu.
       call TestModel (test_model X
         \<lparr>te_model = model', te_dataloader = dl, te_outputfile = outputfile,
          te_use_gpu = use_gpu, te_logfile = Some logfile\<rparr>)))))))))
     else log' (MsgInvalidMode mode) (Some logfile))))))))"

section \<open>The script\<close>

text \<open>The parsed command line: \<^verbatim>\<open>--config\<close>, \<^verbatim>\<open>--testfile\<close>, \<^verbatim>\<open>--outputfile\<close>.\<close>

record args =
  arg_config :: string
  arg_testfile :: "string option"
  arg_outputfile :: "string option"

definition py_optstr :: "string option \<Rightarrow> pyval" where
  "py_optstr s = (case s of None \<Rightarrow> PNone | Some t \<Rightarrow> PStr t)"

text \<open>
  Lines 150 to 164: the configuration is loaded, its \<^verbatim>\<open>use_gpu\<close> entry is replaced, the
  seeds are set and the command-line overrides are written. The result is the
  configuration handed to \<open>main\<close>.
\<close>

definition startup :: "'x externals \<Rightarrow> args \<Rightarrow> pyval prog" where
  "startup X a =
     bnd (call (YamlLoad (arg_config a)) (yaml_load X (arg_config a))) (\<lambda>config0.
     bnd (of_result (getitem config0 ''use_gpu'')) (\<lambda>g.
     bnd (of_result (setitem config0 ''use_gpu''
                       (py_and g (PBool (cuda_is_available X))))) (\<lambda>config1.
     bnd (of_result (getitem config1 ''seed'')) (\<lambda>seed.
     bnd (call (ManualSeed seed) (manual_seed X seed)) (\<lambda>_.
     bnd (call (CudaManualSeed seed) (cuda_manual_seed X seed)) (\<lambda>_.
     if truthy (py_optstr (arg_testfile a)) then
       bnd (of_result (setitem_at config1 [''data'', ''test''] ''jsonfile''
                         (py_optstr (arg_testfile a)))) (\<lambda>config2.
       bnd (of_result (setitem config2 ''outputfile'' (py_optstr (arg_outputfile a))))
         (\<lambda>config3.
       bnd (of_result (setitem_at config3 [''data''] ''dir'' (PStr []))) (\<lambda>config4.
       of_result (setitem config4 ''save_dir'' (PStr [])))))
     else
       bnd (of_result (getitem config1 ''save_dir'')) (\<lambda>save_dir.
       bnd (call (Makedirs save_dir) (makedirs X save_dir)) (\<lambda>_.
       ret config1))))))))"

text \<open>Lines 149 to 165: lines 150 to 164 are \<open>startup\<close>, line 165 calls \<open>main\<close>.\<close>

definition script :: "'x externals \<Rightarrow> args \<Rightarrow> unit prog" where
  "script X a = bnd (startup X a) (main X)"

section \<open>Runs and their traces\<close>

text \<open>
  \<open>emits P m\<close>: every run of \<open>m\<close>, returning or raising, extends the trace, and by events
  that satisfy \<open>P\<close> only.
\<close>

definition emits :: "(event \<Rightarrow> bool) \<Rightarrow> 'a prog \<Rightarrow> bool" where
  "emits P m = (\<forall>w r w'. m w = (r, w') \<longrightarrow> (\<exists>es. trace w' = trace w @ es \<and> list_all P es))"

text \<open>\<open>post Q m\<close>: whatever \<open>m\<close> returns satisfies \<open>Q\<close>.\<close>

definition post :: "('a \<Rightarrow> bool) \<Rightarrow> 'a prog \<Rightarrow> bool" where
  "post Q m = (\<forall>w a w'. m w = (Inr a, w') \<longrightarrow> Q a)"


fun is_copy :: "event \<Rightarrow> bool" where
  "is_copy (CopyReviewVectors i) = True"
| "is_copy (CopySummaryVectors i) = True"
| "is_copy _ = False"

fun is_config_log :: "event \<Rightarrow> bool" where
  "is_config_log (Log (MsgConfig c) lf) = True"
| "is_config_log _ = False"

text \<open>Neither a transfer to the accelerator nor the line that logs the configuration.\<close>

definition quiet :: "event \<Rightarrow> bool" where
  "quiet e = (e \<noteq> ToCuda \<and> \<not> is_config_log e)"

text \<open>A loader of a phase other than \<^verbatim>\<open>train\<close>: no sampler, no shuffling.\<close>

definition eval_loader :: "string \<Rightarrow> 'x dataloader \<Rightarrow> bool" where
  "eval_loader x dl = (x \<noteq> ''train'' \<longrightarrow> dl_sampler dl = None \<and> \<not> dl_shuffle dl)"

text \<open>The three entries \<open>build_model\<close> always writes into \<^verbatim>\<open>model.params\<close>.\<close>

definition written_params :: "(string \<times> pyval) list \<Rightarrow> nat \<Rightarrow> nat \<Rightarrow> pyval \<Rightarrow> (string \<times> pyval) list" where
  "written_params ps n1 n2 g =
     AList.update ''use_gpu'' g
       (AList.update ''summary_vocab_size'' (PInt (int n2))
         (AList.update ''review_vocab_size'' (PInt (int n1)) ps))"

text \<open>The value \<^verbatim>\<open>combined_lookup\<close> is read with: false when the key is absent.\<close>

definition combined :: "(string \<times> pyval) list \<Rightarrow> bool" where
  "combined ps = (case map_of ps ''combined_lookup'' of None \<Rightarrow> False | Some cl \<Rightarrow> truthy cl)"

text \<open>
  The \<^verbatim>\<open>use_gpu\<close> entry of \<open>c\<close> is the configured one, loaded from the file named on the
  command line, combined with the availability of an accelerator.
\<close>

definition startup_flag :: "'x externals \<Rightarrow> args \<Rightarrow> pyval \<Rightarrow> bool" where
  "startup_flag X a c =
     (case yaml_load X (arg_config a) of
        Inl e \<Rightarrow> False
      | Inr c0 \<Rightarrow> (case getitem c0 ''use_gpu'' of
                    Inl e \<Rightarrow> False
                  | Inr g \<Rightarrow> getitem c ''use_gpu'' = Inr (py_and g (PBool (cuda_is_available X)))))"

section \<open>A concrete run\<close>

text \<open>A configuration, externals and a start state to run the program on.\<close>

definition ex_dict :: "pyval \<Rightarrow> pyval \<Rightarrow> (string \<times> pyval) list" where
  "ex_dict mode summary_vocab =
     [(''mode'', mode), (''use_gpu'', PBool True), (''seed'', PInt 1), (''save_dir'', PStr ''out''),
      (''data'', PDict
         [(''dir'', PStr ''data''), (''review_vocab'', PStr ''vocab.pkl''),
          (''summary_vocab'', summary_vocab), (''weights'', PStr ''weighted''),
          (''train'', PDict [(''jsonfile'', PStr ''train.json''), (''batch_size'', PInt 32)]),
          (''val'', PDict [(''jsonfile'', PStr ''val.json''), (''batch_size'', PInt 32)]),
          (''test'', PDict [(''jsonfile'', PStr ''test.json''), (''batch_size'', PInt 32)])]),
      (''model'', PDict [(''params'', PDict [(''use_summary'', PBool True)]),
                         (''reload'', PStr ''best.pt'')]),
      (''optim'', PDict [(''class'', PStr ''adagrad''), (''params'', PDict [(''lr'', PFloat (1 / 100))]),
                         (''scheduler'', PDict [(''patience'', PInt 2), (''factor'', PFloat (1 / 2))])]),
      (''training'', PDict [(''n_epochs'', PInt 10)])]"

definition ex_config :: "pyval \<Rightarrow> pyval \<Rightarrow> pyval" where
  "ex_config mode summary_vocab = PDict (ex_dict mode summary_vocab)"

definition ex_vocab :: "nat \<Rightarrow> nat vocab" where
  "ex_vocab i = \<lparr>oid = i, itos = [''unk'', ''good''], vectors = 100\<rparr>"

definition ex_args :: args where
  "ex_args = \<lparr>arg_config = ''config.yaml'', arg_testfile = None, arg_outputfile = None\<rparr>"

definition ex_X :: "nat externals" where
  "ex_X = \<lparr>path_join = (\<lambda>a b. a @ ''/'' @ b),
           path_exists = (\<lambda>p. p = ''out/best.pt''),
           yaml_load = (\<lambda>p. if p = ''config.yaml'' then Inr (ex_config (PStr ''train'') (PStr ''vocab.pkl''))
                              else Inl (Raised ''FileNotFoundError'')),
           pickle_load = (\<lambda>p. Inr ([''unk'', ''good''], 100)),
           torch_load = (\<lambda>p. Inr \<lparr>ck_epoch = Some (PInt 3), ck_fscore = Some (PFloat (3 / 4)),
                                     ck_model_version = Some 2, ck_state_dict = Some 50,
                                     ck_optimizer = Some 60\<rparr>),
           cuda_is_available = True,
           ReviewsDataset = (\<lambda>p rv sv. Inr 10),
           dataset_len = (\<lambda>d. 5),
           get_sampler = (\<lambda>d wt. Inr 11),
           DataLoader = (\<lambda>dl. Inr ()),
           HAN = (\<lambda>kw. Inr 20),
           version = (\<lambda>m. 1),
           copy_review_lookup = (\<lambda>m v. Inr (m + 1)),
           copy_summary_lookup = (\<lambda>m v. Inr (m + 2)),
           cuda = (\<lambda>m. Inr (m + 4)),
           load_state_dict = (\<lambda>m sd. Inr (m + 8)),
           optimizer_load_state_dict = (\<lambda>opt sd. Inr (opt + 1)),
           new_optimizer = (\<lambda>c m kw. Inr 30),
           CrossEntropyLoss = 40,
           ReduceLROnPlateau = (\<lambda>opt p f. Inr 41),
           train_model = (\<lambda>a. Inr (tr_model a)),
           test_model = (\<lambda>a. Inr ()),
           manual_seed = (\<lambda>s. Inr ()),
           cuda_manual_seed = (\<lambda>s. Inr ()),
           makedirs = (\<lambda>p. Inr ())\<rparr>"

definition w0 :: world where "w0 = \<lparr>trace = [], next_id = 0\<rparr>"

section \<open>Rules for runs\<close>

lemmas prog_defs = bnd_def ret_def of_result_def emit_def call_def log'_def

lemma emitsD: "emits P m \<Longrightarrow> m w = (r, w') \<Longrightarrow> \<exists>es. trace w' = trace w @ es \<and> list_all P es"
  by (simp add: emits_def)

lemma emits_ret: "emits P (ret a)"
  by (simp add: emits_def ret_def)

lemma emits_of_result: "emits P (of_result r)"
  by (simp add: emits_def of_result_def)

lemma emits_emit: "P e \<Longrightarrow> emits P (emit e)"
  by (auto simp: emits_def emit_def)

lemma emits_bnd:
  assumes "emits P m" and "\<And>a w w'. m w = (Inr a, w') \<Longrightarrow> emits P (f a)"
  shows "emits P (bnd m f)"
  unfolding emits_def
proof (intro allI impI)
  fix w r w'' assume run: "bnd m f w = (r, w'')"
  obtain r1 w1 where m: "m w = (r1, w1)" by (cases "m w")
  from emitsD[OF assms(1) m] obtain es1 where es1: "trace w1 = trace w @ es1" "list_all P es1"
    by blast
  show "\<exists>es. trace w'' = trace w @ es \<and> list_all P es"
  proof (cases r1)
    case (Inl e)
    with run m have "w'' = w1" by (simp add: bnd_def)
    with es1 show ?thesis by blast
  next
    case (Inr a)
    with run m have f: "f a w1 = (r, w'')" by (simp add: bnd_def)
    from m Inr have "emits P (f a)" by (auto intro: assms(2))
    from emitsD[OF this f] obtain es2 where "trace w'' = trace w1 @ es2" "list_all P es2"
      by blast
    with es1 have "trace w'' = trace w @ (es1 @ es2) \<and> list_all P (es1 @ es2)" by simp
    then show ?thesis by blast
  qed
qed

lemma emits_call: "P e \<Longrightarrow> emits P (call e r)"
  unfolding call_def by (intro emits_bnd emits_emit emits_of_result)

lemma emits_log: "P (Log m lf) \<Longrightarrow> emits P (log' m lf)"
  unfolding log'_def by (rule emits_emit)

lemma emits_lookup: "emits P (lookup d k)"
  unfolding lookup_def by (rule emits_of_result)

lemma emits_if: "(c \<Longrightarrow> emits P a) \<Longrightarrow> (\<not> c \<Longrightarrow> emits P b) \<Longrightarrow> emits P (if c then a else b)"
  by simp

lemma emits_dict_comp: "(\<And>x. emits P (f x)) \<Longrightarrow> emits P (dict_comp f xs acc)"
  by (induction xs arbitrary: acc) (auto intro!: emits_bnd emits_ret)

lemma emits_unpickle: "P (PickleLoad p) \<Longrightarrow> emits P (unpickle_vocab X p)"
  unfolding unpickle_vocab_def 
  apply (rule emits_bnd)
   apply (erule emits_call)
  apply (auto simp: emits_def split: prod.splits)
  done

lemma emits_new_dataloader: "(\<And>a b. P (NewDataLoader x a b)) \<Longrightarrow> emits P (new_dataloader X x dl)"
  unfolding new_dataloader_def by (intro emits_bnd emits_call emits_ret) simp

lemmas emits_intros = emits_bnd emits_ret emits_of_result emits_call emits_log emits_lookup
  emits_if emits_dict_comp emits_unpickle emits_new_dataloader emits_emit

lemma emits_case_option: "emits P a \<Longrightarrow> (\<And>x. emits P (f x)) \<Longrightarrow> emits P (case_option a f opt)"
  by (cases opt) simp_all

lemma emits_case_prod: "(\<And>a b. emits P (f a b)) \<Longrightarrow> emits P (case_prod f x)"
  by (cases x) simp

lemma emits_build_model:
  assumes "\<And>g. getitem config ''use_gpu'' = Inr g \<Longrightarrow> \<not> truthy g"
  shows "emits (\<lambda>e. e \<noteq> ToCuda) (build_model X config rv sv logfile)"
  unfolding build_model_def
  apply (rule emits_bnd, rule emits_of_result)
  apply (subgoal_tac "\<not> truthy a")
   apply (simp, intro emits_intros; simp)
  apply (auto simp: of_result_def assms)
  done

lemma postD: "post Q m \<Longrightarrow> m w = (Inr a, w') \<Longrightarrow> Q a"
  by (auto simp: post_def)

lemma post_ret: "Q a \<Longrightarrow> post Q (ret a)"
  by (simp add: post_def ret_def)

lemma post_bnd:
  "(\<And>a w w'. m w = (Inr a, w') \<Longrightarrow> post Q (f a)) \<Longrightarrow> post Q (bnd m f)"
  by (auto simp: post_def bnd_def split: prod.splits sum.splits)

lemma of_result_run: "of_result r w = (r', w') \<longleftrightarrow> r = r' \<and> w' = w"
  by (auto simp: of_result_def)

lemma ret_run: "ret a w = (r', w') \<longleftrightarrow> r' = Inr a \<and> w' = w"
  by (auto simp: ret_def)

lemma setitem_at_other:
  "setitem_at c (p # ps) k v = Inr c' \<Longrightarrow> k' \<noteq> p \<Longrightarrow> getitem c' k' = getitem c k'"
  by (cases c) (auto simp: update_conv' split: sum.splits option.splits)

lemma build_model_config_other:
  assumes "build_model X config rv sv logfile w = (Inr (model, config'), w')" and "k \<noteq> ''model''"
  shows "getitem config' k = getitem config k"
proof -
  have "post (\<lambda>(model, config'). getitem config' k = getitem config k)
          (build_model X config rv sv logfile)"
    unfolding build_model_def
    apply (intro post_bnd post_ret)
    using assms(2)
    apply (auto simp: of_result_run ret_run simp del: setitem_at.simps
                split: if_splits dest!: setitem_at_other[where k' = k])
    done
  from postD[OF this assms(1)] show ?thesis by simp
qed

lemma bnd_run_Inl: "m w = (Inl e, w') \<Longrightarrow> bnd m f w = (Inl e, w')"
  by (simp add: bnd_def)

lemma bnd_run_Inr: "m w = (Inr a, w') \<Longrightarrow> bnd m f w = f a w'"
  by (simp add: bnd_def)

lemma bnd_of_result_Inr: "bnd (of_result (Inr a)) f = f a"
  by (simp add: bnd_def of_result_def)

lemma bnd_of_result_Inl: "bnd (of_result (Inl e)) f = of_result (Inl e)"
  by (simp add: bnd_def of_result_def)

lemma bnd_ret: "bnd (ret a) f = f a"
  by (simp add: bnd_def ret_def)

lemma bnd_emit: "bnd (emit e) f w = f () (w\<lparr>trace := trace w @ [e]\<rparr>)"
  by (simp add: bnd_def emit_def)

lemma bnd_log: "bnd (log' m lf) f w = f () (w\<lparr>trace := trace w @ [Log m lf]\<rparr>)"
  by (simp add: log'_def bnd_emit)

lemma bnd_call: "bnd (call e r) f w = bnd (of_result r) f (w\<lparr>trace := trace w @ [e]\<rparr>)"
  by (cases r) (simp_all add: call_def bnd_def emit_def of_result_def)

lemmas bnd_simps = bnd_of_result_Inr bnd_of_result_Inl bnd_ret bnd_emit bnd_log bnd_call

lemma bnd_InrE:
  assumes "bnd m f w = (Inr b, w'')"
  obtains a w' where "m w = (Inr a, w')" and "f a w' = (Inr b, w'')"
  using assms by (auto simp: bnd_def split: prod.splits sum.splits)

lemma post_new_dataloader: "Q dl \<Longrightarrow> post Q (new_dataloader X x dl)"
  by (auto simp: new_dataloader_def intro!: post_bnd post_ret)

lemma post_dict_comp:
  assumes "\<And>x. x \<in> set xs \<Longrightarrow> post (Q x) (f x)"
    and "\<And>k v. map_of acc k = Some v \<Longrightarrow> Q k v"
  shows "post (\<lambda>d. dom (map_of d) = dom (map_of acc) \<union> set xs \<and>
                    (\<forall>k v. map_of d k = Some v \<longrightarrow> Q k v))
              (dict_comp f xs acc)"
  using assms
proof (induction xs arbitrary: acc)
  case Nil
  then show ?case by (auto intro!: post_ret)
next
  case (Cons x xs)
  show ?case
    unfolding dict_comp.simps
  proof (rule post_bnd)
    fix v w w' assume "f x w = (Inr v, w')"
    with Cons.prems(1)[of x] have q: "Q x v" by (auto dest: postD)
    have "post (\<lambda>d. dom (map_of d) = dom (map_of (AList.update x v acc)) \<union> set xs \<and>
                    (\<forall>k v. map_of d k = Some v \<longrightarrow> Q k v))
            (dict_comp f xs (AList.update x v acc))"
      using Cons.prems q by (intro Cons.IH) (auto simp: update_conv' split: if_splits)
    then show "post (\<lambda>d. dom (map_of d) = dom (map_of acc) \<union> set (x # xs) \<and>
                    (\<forall>k v. map_of d k = Some v \<longrightarrow> Q k v))
            (dict_comp f xs (AList.update x v acc))"
      by (auto simp: post_def update_conv')
  qed
qed

lemma post_if: "(c \<Longrightarrow> post Q a) \<Longrightarrow> (\<not> c \<Longrightarrow> post Q b) \<Longrightarrow> post Q (if c then a else b)"
  by simp

lemma post_conseq: "post Q m \<Longrightarrow> (\<And>a. Q a \<Longrightarrow> R a) \<Longrightarrow> post R m"
  by (auto simp: post_def)

lemma post_samplers:
  "post (\<lambda>d. \<forall>k s. map_of d k = Some s \<longrightarrow> (k \<noteq> ''train'' \<longrightarrow> s = None))
     (dict_comp (\<lambda>x. if x = ''train''
                      then bnd (lookup datasets x) (\<lambda>ds. bnd (call (ev x) (r ds)) (\<lambda>s. ret (Some s)))
                      else ret None) phases [])"
  by (rule post_conseq[OF post_dict_comp[where Q = "\<lambda>k s. k \<noteq> ''train'' \<longrightarrow> s = None"]])
     (auto intro!: post_ret simp: post_def ret_run)

lemma post_loaders:
  "post (\<lambda>d. dom (map_of d) = set phases \<and> (\<forall>k dl. map_of d k = Some dl \<longrightarrow> eval_loader k dl))
     (if unweighted then
            dict_comp (\<lambda>x. bnd (lookup datasets x) (\<lambda>ds.
                           bnd (of_result (getitem config x)) (\<lambda>c.
                           bnd (of_result (getitem c ''batch_size'')) (\<lambda>bs.
                           new_dataloader X x
                             \<lparr>dl_dataset = ds, dl_batch_size = bs,
                              dl_shuffle = (x = ''train''), dl_sampler = None\<rparr>)))) phases []
          else
            bnd (of_result (getitem config ''weights'')) (\<lambda>wt.
            bnd (dict_comp (\<lambda>x. if x = ''train''
                                 then bnd (lookup datasets x) (\<lambda>ds.
                                      bnd (call (GetSampler x
                                                  (if wt = PStr ''weighted'' then None else Some wt))
                                             (get_sampler X ds
                                                  (if wt = PStr ''weighted'' then None else Some wt)))
                                        (\<lambda>s. ret (Some s)))
                                 else ret None) phases []) (\<lambda>samplers.
            dict_comp (\<lambda>x. bnd (lookup datasets x) (\<lambda>ds.
                           bnd (of_result (getitem config x)) (\<lambda>c.
                           bnd (of_result (getitem c ''batch_size'')) (\<lambda>bs.
                           bnd (lookup samplers x) (\<lambda>s.
                           new_dataloader X x
                             \<lparr>dl_dataset = ds, dl_batch_size = bs,
                              dl_shuffle = False, dl_sampler = s\<rparr>))))) phases [])))"
proof (rule post_if)
  show "post (\<lambda>d. dom (map_of d) = set phases \<and> (\<forall>k dl. map_of d k = Some dl \<longrightarrow> eval_loader k dl))
     (dict_comp (\<lambda>x. bnd (lookup datasets x) (\<lambda>ds.
                           bnd (of_result (getitem config x)) (\<lambda>c.
                           bnd (of_result (getitem c ''batch_size'')) (\<lambda>bs.
                           new_dataloader X x
                             \<lparr>dl_dataset = ds, dl_batch_size = bs,
                              dl_shuffle = (x = ''train''), dl_sampler = None\<rparr>)))) phases [])"
    by (rule post_conseq[OF post_dict_comp[where Q = eval_loader]])
       (auto intro!: post_bnd post_new_dataloader simp: eval_loader_def)
next
  show "post (\<lambda>d. dom (map_of d) = set phases \<and> (\<forall>k dl. map_of d k = Some dl \<longrightarrow> eval_loader k dl))
     (bnd (of_result (getitem config ''weights'')) (\<lambda>wt.
            bnd (dict_comp (\<lambda>x. if x = ''train''
                                 then bnd (lookup datasets x) (\<lambda>ds.
                                      bnd (call (GetSampler x
                                                  (if wt = PStr ''weighted'' then None else Some wt))
                                             (get_sampler X ds
                                                  (if wt = PStr ''weighted'' then None else Some wt)))
                                        (\<lambda>s. ret (Some s)))
                                 else ret None) phases []) (\<lambda>samplers.
            dict_comp (\<lambda>x. bnd (lookup datasets x) (\<lambda>ds.
                           bnd (of_result (getitem config x)) (\<lambda>c.
                           bnd (of_result (getitem c ''batch_size'')) (\<lambda>bs.
                           bnd (lookup samplers x) (\<lambda>s.
                           new_dataloader X x
                             \<lparr>dl_dataset = ds, dl_batch_size = bs,
                              dl_shuffle = False, dl_sampler = s\<rparr>))))) phases [])))"
  proof (intro post_bnd)
    fix wt w0 w0' samplers w1 w1'
    assume "dict_comp (\<lambda>x. if x = ''train''
                                 then bnd (lookup datasets x) (\<lambda>ds.
                                      bnd (call (GetSampler x
                                                  (if wt = PStr ''weighted'' then None else Some wt))
                                             (get_sampler X ds
                                                  (if wt = PStr ''weighted'' then None else Some wt)))
                                        (\<lambda>s. ret (Some s)))
                                 else ret None) phases [] w1 = (Inr samplers, w1')"
    from postD[OF post_samplers this]
    have smp: "\<And>k s. map_of samplers k = Some s \<Longrightarrow> k \<noteq> ''train'' \<Longrightarrow> s = None"
      by blast
    show "post (\<lambda>d. dom (map_of d) = set phases \<and> (\<forall>k dl. map_of d k = Some dl \<longrightarrow> eval_loader k dl))
            (dict_comp (\<lambda>x. bnd (lookup datasets x) (\<lambda>ds.
                           bnd (of_result (getitem config x)) (\<lambda>c.
                           bnd (of_result (getitem c ''batch_size'')) (\<lambda>bs.
                           bnd (lookup samplers x) (\<lambda>s.
                           new_dataloader X x
                             \<lparr>dl_dataset = ds, dl_batch_size = bs,
                              dl_shuffle = False, dl_sampler = s\<rparr>))))) phases [])"
      by (rule post_conseq[OF post_dict_comp[where Q = eval_loader]])
         (auto intro!: post_bnd post_new_dataloader dest!: smp
               simp: eval_loader_def lookup_def of_result_run split: option.splits)
  qed
qed

lemma post_load_phases:
  "post (\<lambda>(dls, rv', sv'). rv' = rv \<and> sv' = sv \<and> dom (map_of dls) = set phases \<and>
                           (\<forall>k dl. map_of dls k = Some dl \<longrightarrow> eval_loader k dl))
     (load_phases X config phases logfile rv sv)"
  unfolding load_phases_def
  apply (intro post_bnd post_ret)
  apply (drule postD[OF post_loaders])
  apply simp
  done




lemma build_model_run:
  assumes run: "build_model X (PDict c) rv sv logfile w = (Inr (model, config'), w')"
      and m: "map_of c ''model'' = Some (PDict m)"
      and ps: "map_of m ''params'' = Some (PDict ps)"
      and g: "map_of c ''use_gpu'' = Some g"
      and us: "map_of ps ''use_summary'' = Some us"
  shows "trace w' = trace w @
           [NewHAN (written_params ps (vocab_len rv) (vocab_len sv) g), Log MsgModel logfile,
            CopyReviewVectors (oid rv)] @
           (if truthy us \<and> \<not> combined ps then [CopySummaryVectors (oid sv)] else []) @
           (if truthy g then [ToCuda] else [])"
    and "config' = PDict (AList.update ''model'' (PDict (AList.update ''params''
            (PDict (if map_of ps ''combined_lookup'' = None
                    then AList.update ''combined_lookup'' (PBool False)
                           (written_params ps (vocab_len rv) (vocab_len sv) g)
                    else written_params ps (vocab_len rv) (vocab_len sv) g)) m)) c)"
  using assms
  by (auto simp: build_model_def prog_defs written_params_def combined_def update_conv'
           split: sum.splits if_splits option.splits)

lemma emits_mono: "emits P m \<Longrightarrow> (\<And>e. P e \<Longrightarrow> Q e) \<Longrightarrow> emits Q m"
  unfolding emits_def list_all_iff by blast

lemma emits_conj: "emits P m \<Longrightarrow> emits Q m \<Longrightarrow> emits (\<lambda>e. P e \<and> Q e) m"
  unfolding emits_def list_all_iff by (metis append_eq_append_conv)

lemma quiet_load_phases: "emits quiet (load_phases X config phases logfile rv sv)"
  unfolding load_phases_def by (intro emits_intros) (simp_all add: quiet_def)

lemma quiet_load_datasets: "emits quiet (load_datasets X config phases logfile)"
  unfolding load_datasets_def by (intro emits_intros quiet_load_phases) (simp_all add: quiet_def)

lemma quiet_reload: "emits quiet (reload X config model opt logfile)"
  unfolding reload_def by (intro emits_intros emits_case_option) (simp_all add: quiet_def)

lemma quiet_main_train: "emits quiet (main_train X config model dls logfile opt)"
  unfolding main_train_def by (intro emits_intros emits_case_prod quiet_reload) (simp_all add: quiet_def)

lemma build_model_no_config_log: "emits (\<lambda>e. \<not> is_config_log e) (build_model X config rv sv logfile)"
  unfolding build_model_def by (intro emits_intros) simp_all

lemma main_config_log:
  "emits (\<lambda>e. \<forall>c lf. e = Log (MsgConfig c) lf \<longrightarrow> c = config) (main X config)"
  unfolding main_def
  by (intro emits_intros emits_case_prod
        emits_mono[OF quiet_load_datasets] emits_mono[OF build_model_no_config_log]
        emits_mono[OF quiet_main_train] emits_mono[OF quiet_reload])
     (auto simp: quiet_def)

lemma main_no_cuda:
  assumes "\<And>g. getitem config ''use_gpu'' = Inr g \<Longrightarrow> \<not> truthy g"
  shows "emits (\<lambda>e. e \<noteq> ToCuda) (main X config)"
  unfolding main_def
  by (intro emits_intros emits_case_prod emits_build_model assms
        emits_mono[OF quiet_load_datasets]
        emits_mono[OF quiet_main_train] emits_mono[OF quiet_reload])
     (auto simp: quiet_def)

lemma setitem_same: "setitem c k v = Inr c' \<Longrightarrow> getitem c' k = Inr v"
  by (cases c) (auto simp: update_conv')

lemma setitem_other: "setitem c k v = Inr c' \<Longrightarrow> k' \<noteq> k \<Longrightarrow> getitem c' k' = getitem c k'"
  by (cases c) (auto simp: update_conv')

lemma call_run_Inr: "call e r w = (Inr a, w') \<Longrightarrow> r = Inr a"
  by (auto simp: call_def bnd_def emit_def of_result_def)

lemma truthy_py_and: "truthy (py_and g (PBool b)) \<longleftrightarrow> truthy g \<and> b"
  by (simp add: py_and_def)

lemma script_config_use_gpu:
  assumes "(if t then
              bnd (of_result (setitem_at config1 [''data'', ''test''] ''jsonfile'' v1)) (\<lambda>config2.
              bnd (of_result (setitem config2 ''outputfile'' v2)) (\<lambda>config3.
              bnd (of_result (setitem_at config3 [''data''] ''dir'' (PStr []))) (\<lambda>config4.
              of_result (setitem config4 ''save_dir'' (PStr [])))))
            else
              bnd (of_result (getitem config1 ''save_dir'')) (\<lambda>save_dir.
              bnd (call (Makedirs save_dir) (makedirs X save_dir)) (\<lambda>_.
              ret config1))) w = (Inr cfg, w')"
  shows "getitem cfg ''use_gpu'' = getitem config1 ''use_gpu''"
proof (cases t)
  case True
  with assms obtain c2 c3 c4 where
    "setitem_at config1 [''data'', ''test''] ''jsonfile'' v1 = Inr c2"
    "setitem c2 ''outputfile'' v2 = Inr c3"
    "setitem_at c3 [''data''] ''dir'' (PStr []) = Inr c4"
    "setitem c4 ''save_dir'' (PStr []) = Inr cfg"
    by (auto elim!: bnd_InrE simp: of_result_run simp del: setitem_at.simps)
  then show ?thesis
    using setitem_at_other[of config1 "''data''" "[''test'']" "''jsonfile''" v1 c2 "''use_gpu''"]
      setitem_other[of c2 "''outputfile''" v2 c3 "''use_gpu''"]
      setitem_at_other[of c3 "''data''" "[]" "''dir''" "PStr []" c4 "''use_gpu''"]
      setitem_other[of c4 "''save_dir''" "PStr []" cfg "''use_gpu''"]
    by simp
next
  case False
  with assms show ?thesis
    by (auto elim!: bnd_InrE simp: ret_run)
qed

lemma quiet_startup: "emits quiet (startup X a)"
  unfolding startup_def by (intro emits_intros) (simp_all add: quiet_def)

lemma post_startup:
  "post (\<lambda>cfg. \<exists>c0 g. yaml_load X (arg_config a) = Inr c0 \<and> getitem c0 ''use_gpu'' = Inr g \<and>
                  getitem cfg ''use_gpu'' = Inr (py_and g (PBool (cuda_is_available X))) \<and>
                  (\<not> truthy (py_optstr (arg_testfile a)) \<longrightarrow>
                     setitem c0 ''use_gpu'' (py_and g (PBool (cuda_is_available X))) = Inr cfg))
     (startup X a)"
  unfolding startup_def
proof (intro post_bnd)
  fix c0 w0 w0' g w1 w1' c1 w2 w2' seed w3 w3' and u1 :: unit and w4 w4' and u2 :: unit and w5 w5'
  assume y0: "call (YamlLoad (arg_config a)) (yaml_load X (arg_config a)) w0 = (Inr c0, w0')"
    and g0: "of_result (getitem c0 ''use_gpu'') w1 = (Inr g, w1')"
    and c0: "of_result (setitem c0 ''use_gpu'' (py_and g (PBool (cuda_is_available X)))) w2
               = (Inr c1, w2')"
  from y0 have y: "yaml_load X (arg_config a) = Inr c0" by (rule call_run_Inr)
  from g0 have g: "getitem c0 ''use_gpu'' = Inr g" by (simp add: of_result_run)
  from c0 have c1: "setitem c0 ''use_gpu'' (py_and g (PBool (cuda_is_available X))) = Inr c1"
    by (simp add: of_result_run)
  show "post (\<lambda>cfg. \<exists>c0 g. yaml_load X (arg_config a) = Inr c0 \<and> getitem c0 ''use_gpu'' = Inr g \<and>
                  getitem cfg ''use_gpu'' = Inr (py_and g (PBool (cuda_is_available X))) \<and>
                  (\<not> truthy (py_optstr (arg_testfile a)) \<longrightarrow>
                     setitem c0 ''use_gpu'' (py_and g (PBool (cuda_is_available X))) = Inr cfg))
     (if truthy (py_optstr (arg_testfile a)) then
       bnd (of_result (setitem_at c1 [''data'', ''test''] ''jsonfile''
                         (py_optstr (arg_testfile a)))) (\<lambda>config2.
       bnd (of_result (setitem config2 ''outputfile'' (py_optstr (arg_outputfile a))))
         (\<lambda>config3.
       bnd (of_result (setitem_at config3 [''data''] ''dir'' (PStr []))) (\<lambda>config4.
       of_result (setitem config4 ''save_dir'' (PStr [])))))
     else
       bnd (of_result (getitem c1 ''save_dir'')) (\<lambda>save_dir.
       bnd (call (Makedirs save_dir) (makedirs X save_dir)) (\<lambda>_.
       ret c1)))"
    unfolding post_def
  proof (intro allI impI)
    fix w cfg w'
    assume run: "(if truthy (py_optstr (arg_testfile a)) then
       bnd (of_result (setitem_at c1 [''data'', ''test''] ''jsonfile''
                         (py_optstr (arg_testfile a)))) (\<lambda>config2.
       bnd (of_result (setitem config2 ''outputfile'' (py_optstr (arg_outputfile a))))
         (\<lambda>config3.
       bnd (of_result (setitem_at config3 [''data''] ''dir'' (PStr []))) (\<lambda>config4.
       of_result (setitem config4 ''save_dir'' (PStr [])))))
     else
       bnd (of_result (getitem c1 ''save_dir'')) (\<lambda>save_dir.
       bnd (call (Makedirs save_dir) (makedirs X save_dir)) (\<lambda>_.
       ret c1))) w = (Inr cfg, w')"
    from script_config_use_gpu[OF run] setitem_same[OF c1]
    have flag: "getitem cfg ''use_gpu'' = Inr (py_and g (PBool (cuda_is_available X)))" by simp
    have same: "cfg = c1" if "\<not> truthy (py_optstr (arg_testfile a))"
      using run that by (auto elim!: bnd_InrE simp: ret_run)
    from y g flag same c1
    show "\<exists>c0 g. yaml_load X (arg_config a) = Inr c0 \<and> getitem c0 ''use_gpu'' = Inr g \<and>
                  getitem cfg ''use_gpu'' = Inr (py_and g (PBool (cuda_is_available X))) \<and>
                  (\<not> truthy (py_optstr (arg_testfile a)) \<longrightarrow>
                     setitem c0 ''use_gpu'' (py_and g (PBool (cuda_is_available X))) = Inr cfg)"
      by blast
  qed
qed

lemma script_emits:
  "emits (\<lambda>e. (\<forall>c lf. e = Log (MsgConfig c) lf \<longrightarrow> startup_flag X a c) \<and>
               (\<not> cuda_is_available X \<longrightarrow> e \<noteq> ToCuda)) (script X a)"
  unfolding script_def
proof (rule emits_bnd)
  show "emits (\<lambda>e. (\<forall>c lf. e = Log (MsgConfig c) lf \<longrightarrow> startup_flag X a c) \<and>
               (\<not> cuda_is_available X \<longrightarrow> e \<noteq> ToCuda)) (startup X a)"
    by (rule emits_mono[OF quiet_startup]) (auto simp: quiet_def)
next
  fix cfg w1 w1'
  assume "startup X a w1 = (Inr cfg, w1')"
  from postD[OF post_startup this] obtain c0 g where
    y: "yaml_load X (arg_config a) = Inr c0" and g: "getitem c0 ''use_gpu'' = Inr g"
    and flag: "getitem cfg ''use_gpu'' = Inr (py_and g (PBool (cuda_is_available X)))"
    by blast
  have 1: "emits (\<lambda>e. \<forall>c lf. e = Log (MsgConfig c) lf \<longrightarrow> startup_flag X a c) (main X cfg)"
    by (rule emits_mono[OF main_config_log]) (auto simp: startup_flag_def y g flag)
  have 2: "emits (\<lambda>e. \<not> cuda_is_available X \<longrightarrow> e \<noteq> ToCuda) (main X cfg)"
  proof (cases "cuda_is_available X")
    case True
    then show ?thesis by (auto simp: emits_def list_all_iff intro: emitsD[OF main_config_log, THEN exE])
  next
    case False
    with flag have "\<And>g'. getitem cfg ''use_gpu'' = Inr g' \<Longrightarrow> \<not> truthy g'"
      by (auto simp: truthy_py_and)
    from main_no_cuda[OF this] False show ?thesis by simp
  qed
  from emits_conj[OF 1 2]
  show "emits (\<lambda>e. (\<forall>c lf. e = Log (MsgConfig c) lf \<longrightarrow> startup_flag X a c) \<and>
               (\<not> cuda_is_available X \<longrightarrow> e \<noteq> ToCuda)) (main X cfg)" .
qed

lemma after_log:
  assumes "bnd (log' m lf) K w = (r, w')" and "\<And>u. emits P (K u)"
  shows "\<exists>es. trace w' = trace w @ Log m lf # es"
proof -
  from assms(1) have "K () (w\<lparr>trace := trace w @ [Log m lf]\<rparr>) = (r, w')"
    by (simp add: bnd_log)
  from emitsD[OF assms(2) this] show ?thesis by auto
qed

lemma main_logs_config:
  assumes "main X cfg w = (r, w')"
    and "getitem cfg ''save_dir'' = Inr sd"
    and "join X sd (PStr ''log'') = Inr lf"
  shows "\<exists>es. trace w' = trace w @ Log (MsgConfig cfg) (Some lf) # es"
  using assms(1) unfolding main_def
  apply (simp only: assms(2,3) bnd_of_result_Inr)
  apply (erule after_log[where P = "\<lambda>e. True"])
  apply (intro emits_intros emits_case_prod
        emits_mono[OF quiet_load_datasets] emits_mono[OF build_model_no_config_log]
        emits_mono[OF quiet_main_train] emits_mono[OF quiet_reload])
  apply simp_all
  done

lemma build_model_eq:
  assumes m: "map_of c ''model'' = Some (PDict m)"
      and ps: "map_of m ''params'' = Some (PDict ps)"
      and g: "map_of c ''use_gpu'' = Some g"
      and us: "map_of ps ''use_summary'' = Some us"
  shows "build_model X (PDict c) rv sv logfile =
     bnd (call (NewHAN (written_params ps (vocab_len rv) (vocab_len sv) g))
            (HAN X (written_params ps (vocab_len rv) (vocab_len sv) g))) (\<lambda>model.
     bnd (log' MsgModel logfile) (\<lambda>_.
     bnd (call (CopyReviewVectors (oid rv)) (copy_review_lookup X model (vectors rv))) (\<lambda>model1.
     bnd (if truthy us \<and> \<not> combined ps
          then call (CopySummaryVectors (oid sv)) (copy_summary_lookup X model1 (vectors sv))
          else ret model1) (\<lambda>model2.
     bnd (if truthy g then call ToCuda (cuda X model2) else ret model2) (\<lambda>model3.
     ret (model3,
          PDict (AList.update ''model'' (PDict (AList.update ''params''
            (PDict (if map_of ps ''combined_lookup'' = None
                    then AList.update ''combined_lookup'' (PBool False)
                           (written_params ps (vocab_len rv) (vocab_len sv) g)
                    else written_params ps (vocab_len rv) (vocab_len sv) g)) m)) c)))))))"
proof (cases "map_of ps ''combined_lookup''")
  case None
  with assms show ?thesis
    by (simp add: build_model_def bnd_of_result_Inr bnd_ret written_params_def combined_def update_conv')
next
  case (Some cl)
  with assms show ?thesis
    by (simp add: build_model_def bnd_of_result_Inr bnd_ret written_params_def combined_def update_conv')
qed

lemmas ex_defs = ex_config_def ex_dict_def ex_vocab_def ex_args_def ex_X_def w0_def prog_defs lookup_def unpickle_vocab_def new_dataloader_def vocab_len_def ck_getitem_def update_conv'

lemmas eval_defs = main_def main_train_def reload_def load_datasets_def load_phases_def build_model_def script_def startup_def ex_defs

section \<open>The claims\<close>

text \<open>
  Claim C1. When the model section of the configuration has no \<^verbatim>\<open>reload\<close> key, or the
  path joined from \<^verbatim>\<open>save_dir\<close> and \<^verbatim>\<open>reload\<close> does not exist, \<open>reload\<close> returns the
  model and the optimizer it was given, \<open>best_fscore = 0\<close> and \<open>start_epoch = 0\<close>, as a normal
  result and not as an exception. Nothing is logged in the first case; in the second the
  only event is the line saying that no checkpoint was found.
\<close>

theorem reload_fresh_start:
  assumes "getitem config ''save_dir'' = Inr save_dir"
    and "getitem config ''model'' = Inr m"
    and "contains ''reload'' m = Inr False \<or>
         (contains ''reload'' m = Inr True \<and> getitem m ''reload'' = Inr r \<and>
          join X save_dir r = Inr p \<and> \<not> path_exists X p)"
  shows "reload X config model optimizer logfile w =
          (Inr (model, optimizer, PInt 0, PInt 0),
           w\<lparr>trace := trace w @
               (if contains ''reload'' m = Inr False then []
                else [Log (MsgNoCheckpoint p) logfile])\<rparr>)"
  using assms by (auto simp: reload_def prog_defs)

theorem reload_fresh_start_witness:
  "reload ex_X (PDict [(''save_dir'', PStr ''out''), (''model'', PDict [(''params'', PDict [])])])
      20 (Some 30) (Some ''out/log'') w0
     = (Inr (20, Some 30, PInt 0, PInt 0), w0) \<and>
   reload ex_X (PDict [(''save_dir'', PStr ''out''), (''model'', PDict [(''reload'', PStr ''last.pt'')])])
      20 None (Some ''out/log'') w0
     = (Inr (20, None, PInt 0, PInt 0),
        w0\<lparr>trace := [Log (MsgNoCheckpoint ''out/last.pt'') (Some ''out/log'')]\<rparr>)"
  using reload_fresh_start[of "PDict [(''save_dir'', PStr ''out''), (''model'', PDict [(''params'', PDict [])])]"
          "PStr ''out''" "PDict [(''params'', PDict [])]" PNone ex_X "''none''" 20 "Some 30"
          "Some ''out/log''" w0]
        reload_fresh_start[of "PDict [(''save_dir'', PStr ''out''), (''model'', PDict [(''reload'', PStr ''last.pt'')])]"
          "PStr ''out''" "PDict [(''reload'', PStr ''last.pt'')]" "PStr ''last.pt''" ex_X "''out/last.pt''"
          20 None "Some ''out/log''" w0]
  by (simp add: ex_X_def w0_def)

text \<open>
  Claim C2. When the checkpoint at the reload path exists and its \<^verbatim>\<open>model_version\<close> differs
  from the version of the live model, \<open>reload\<close> logs the mismatch and goes on: the
  start epoch and the best score are those of the checkpoint, the model is what
  \<^verbatim>\<open>load_state_dict\<close> makes of the checkpoint's state, and the optimizer state is loaded
  when an optimizer was supplied. The only exceptions left are those the two
  \<^verbatim>\<open>load_state_dict\<close> calls raise themselves; the version test raises none.
\<close>

theorem reload_version_mismatch:
  assumes "getitem config ''save_dir'' = Inr save_dir"
    and "getitem config ''model'' = Inr m"
    and "contains ''reload'' m = Inr True"
    and "getitem m ''reload'' = Inr r"
    and "join X save_dir r = Inr p"
    and "path_exists X p"
    and "torch_load X p = Inr ck"
    and "ck_model_version ck = Some v"
    and "ck_epoch ck = Some ep"
    and "ck_fscore ck = Some fs"
    and "ck_state_dict ck = Some sd"
    and "optimizer \<noteq> None \<longrightarrow> ck_optimizer ck = Some osd"
    and "version X model \<noteq> v"
  shows "reload X config model optimizer logfile w =
          (let w1 = w\<lparr>trace := trace w @ [Log (MsgLoadingCheckpoint p) logfile, TorchLoad p,
                                          Log MsgVersionMismatch None, LoadStateDict]\<rparr>;
               w2 = w1\<lparr>trace := trace w1 @ [OptimizerLoadStateDict]\<rparr>
           in case load_state_dict X model sd of
                Inl e \<Rightarrow> (Inl e, w1)
              | Inr model' \<Rightarrow>
                 (case optimizer of
                    None \<Rightarrow> (Inr (model', None, fs, ep), w1)
                  | Some opt \<Rightarrow>
                     (case optimizer_load_state_dict X opt osd of
                        Inl e \<Rightarrow> (Inl e, w2)
                      | Inr opt' \<Rightarrow> (Inr (model', Some opt', fs, ep), w2))))"
  using assms by (auto simp: reload_def prog_defs ck_getitem_def Let_def split: sum.splits option.splits)

theorem reload_version_mismatch_witness:
  "version ex_X 20 \<noteq> 2 \<and>
   reload ex_X (ex_config (PStr ''train'') (PStr ''vocab.pkl'')) 20 (Some 30) (Some ''out/log'') w0
     = (Inr (28, Some 31, PFloat (3 / 4), PInt 3),
        w0\<lparr>trace := [Log (MsgLoadingCheckpoint ''out/best.pt'') (Some ''out/log''),
                      TorchLoad ''out/best.pt'', Log MsgVersionMismatch None, LoadStateDict,
                      OptimizerLoadStateDict]\<rparr>)"
  using reload_version_mismatch[of "ex_config (PStr ''train'') (PStr ''vocab.pkl'')" "PStr ''out''"
          "PDict [(''params'', PDict [(''use_summary'', PBool True)]), (''reload'', PStr ''best.pt'')]"
          "PStr ''best.pt''" ex_X "''out/best.pt''"
          "\<lparr>ck_epoch = Some (PInt 3), ck_fscore = Some (PFloat (3 / 4)),
            ck_model_version = Some 2, ck_state_dict = Some 50, ck_optimizer = Some 60\<rparr>"
          2 "PInt 3" "PFloat (3 / 4)" 50 "Some 30" 60 20 "Some ''out/log''" w0]
  by (simp add: ex_X_def ex_config_def ex_dict_def w0_def)

text \<open>
  Claim C3. Model construction is this sequence, for every configuration that has the
  entries \<open>build_model\<close> reads: the model that \<^verbatim>\<open>HAN\<close> constructs receives the review
  vocabulary's vectors in its review lookup table, always; the model so obtained receives
  the summary vocabulary's vectors in its summary lookup table exactly when
  \<^verbatim>\<open>use_summary\<close> is true and \<^verbatim>\<open>combined_lookup\<close> is false, an absent \<^verbatim>\<open>combined_lookup\<close>
  counting as false; the model after the copies is the one transferred or returned. The
  copy events of a returning run are these copies, in this order.
\<close>

theorem build_model_copies:
  assumes "map_of c ''model'' = Some (PDict m)"
      and "map_of m ''params'' = Some (PDict ps)"
      and "map_of c ''use_gpu'' = Some g"
      and "map_of ps ''use_summary'' = Some us"
  shows "build_model X (PDict c) rv sv logfile =
           bnd (call (NewHAN (written_params ps (vocab_len rv) (vocab_len sv) g))
                  (HAN X (written_params ps (vocab_len rv) (vocab_len sv) g))) (\<lambda>model.
           bnd (log' MsgModel logfile) (\<lambda>_.
           bnd (call (CopyReviewVectors (oid rv))
                  (copy_review_lookup X model (vectors rv))) (\<lambda>model1.
           bnd (if truthy us \<and>
                   \<not> (case map_of ps ''combined_lookup'' of None \<Rightarrow> False | Some cl \<Rightarrow> truthy cl)
                then call (CopySummaryVectors (oid sv))
                       (copy_summary_lookup X model1 (vectors sv))
                else ret model1) (\<lambda>model2.
           bnd (if truthy g then call ToCuda (cuda X model2) else ret model2) (\<lambda>model3.
           ret (model3,
                PDict (AList.update ''model'' (PDict (AList.update ''params''
                  (PDict (if map_of ps ''combined_lookup'' = None
                          then AList.update ''combined_lookup'' (PBool False)
                                 (written_params ps (vocab_len rv) (vocab_len sv) g)
                          else written_params ps (vocab_len rv) (vocab_len sv) g)) m)) c))))))) \<and>
         (\<forall>w model config' w'.
            build_model X (PDict c) rv sv logfile w = (Inr (model, config'), w') \<longrightarrow>
            (\<exists>es. trace w' = trace w @ es \<and>
               filter is_copy es =
                 CopyReviewVectors (oid rv) #
                 (if truthy us \<and>
                     \<not> (case map_of ps ''combined_lookup'' of None \<Rightarrow> False | Some cl \<Rightarrow> truthy cl)
                  then [CopySummaryVectors (oid sv)] else [])))"
proof (rule conjI)
  show "build_model X (PDict c) rv sv logfile =
           bnd (call (NewHAN (written_params ps (vocab_len rv) (vocab_len sv) g))
                  (HAN X (written_params ps (vocab_len rv) (vocab_len sv) g))) (\<lambda>model.
           bnd (log' MsgModel logfile) (\<lambda>_.
           bnd (call (CopyReviewVectors (oid rv))
                  (copy_review_lookup X model (vectors rv))) (\<lambda>model1.
           bnd (if truthy us \<and>
                   \<not> (case map_of ps ''combined_lookup'' of None \<Rightarrow> False | Some cl \<Rightarrow> truthy cl)
                then call (CopySummaryVectors (oid sv))
                       (copy_summary_lookup X model1 (vectors sv))
                else ret model1) (\<lambda>model2.
           bnd (if truthy g then call ToCuda (cuda X model2) else ret model2) (\<lambda>model3.
           ret (model3,
                PDict (AList.update ''model'' (PDict (AList.update ''params''
                  (PDict (if map_of ps ''combined_lookup'' = None
                          then AList.update ''combined_lookup'' (PBool False)
                                 (written_params ps (vocab_len rv) (vocab_len sv) g)
                          else written_params ps (vocab_len rv) (vocab_len sv) g)) m)) c)))))))"
    using build_model_eq[OF assms, of X rv sv logfile] by (simp only: combined_def)
next
  show "\<forall>w model config' w'.
            build_model X (PDict c) rv sv logfile w = (Inr (model, config'), w') \<longrightarrow>
            (\<exists>es. trace w' = trace w @ es \<and>
               filter is_copy es =
                 CopyReviewVectors (oid rv) #
                 (if truthy us \<and>
                     \<not> (case map_of ps ''combined_lookup'' of None \<Rightarrow> False | Some cl \<Rightarrow> truthy cl)
                  then [CopySummaryVectors (oid sv)] else []))"
  proof (intro allI impI)
    fix w model config' w'
    assume run: "build_model X (PDict c) rv sv logfile w = (Inr (model, config'), w')"
    from build_model_run(1)[OF run assms]
    show "\<exists>es. trace w' = trace w @ es \<and>
               filter is_copy es =
                 CopyReviewVectors (oid rv) #
                 (if truthy us \<and>
                     \<not> (case map_of ps ''combined_lookup'' of None \<Rightarrow> False | Some cl \<Rightarrow> truthy cl)
                  then [CopySummaryVectors (oid sv)] else [])"
      by (auto simp: combined_def)
  qed
qed

theorem build_model_copies_witness:
  "\<exists>config' w'.
     build_model ex_X (ex_config (PStr ''train'') (PStr ''vocab.pkl'')) (ex_vocab 0) (ex_vocab 1) None w0
       = (Inr (27, config'), w') \<and>
     HAN ex_X [(''use_summary'', PBool True), (''review_vocab_size'', PInt 2),
               (''summary_vocab_size'', PInt 2), (''use_gpu'', PBool True)] = Inr 20 \<and>
     copy_review_lookup ex_X 20 (vectors (ex_vocab 0)) = Inr 21 \<and>
     copy_summary_lookup ex_X 21 (vectors (ex_vocab 1)) = Inr 23 \<and>
     cuda ex_X 23 = Inr 27 \<and>
     filter is_copy (trace w') = [CopyReviewVectors 0, CopySummaryVectors 1]"
  using build_model_copies[where c = "ex_dict (PStr ''train'') (PStr ''vocab.pkl'')"
      and m = "[(''params'', PDict [(''use_summary'', PBool True)]), (''reload'', PStr ''best.pt'')]"
      and ps = "[(''use_summary'', PBool True)]" and g = "PBool True" and us = "PBool True"
      and X = ex_X and rv = "ex_vocab 0" and sv = "ex_vocab 1" and logfile = None]
  by (simp add: ex_defs written_params_def)

text \<open>
  Claim C4. Whatever the configuration says about \<^verbatim>\<open>weights\<close> (the theorem holds for
  every configuration), the \<^verbatim>\<open>DataLoader\<close> that \<open>load_datasets\<close> returns for a phase other
  than \<^verbatim>\<open>train\<close> is constructed with no sampler and with shuffling off.
\<close>

theorem load_datasets_eval_phases:
  assumes "load_datasets X config phases logfile w = (Inr (dls, rv, sv), w')"
    and "x \<in> set phases" and "x \<noteq> ''train''"
  shows "\<exists>dl. map_of dls x = Some dl \<and> dl_sampler dl = None \<and> \<not> dl_shuffle dl"
proof -
  from assms(1) obtain d rv0 sv0 w0 where
    "load_phases X d phases logfile rv0 sv0 w0 = (Inr (dls, rv, sv), w')"
    unfolding load_datasets_def by (elim bnd_InrE)
  from postD[OF post_load_phases this]
  have dm: "dom (map_of dls) = set phases" and ev: "\<And>k dl. map_of dls k = Some dl \<Longrightarrow> eval_loader k dl"
    by auto
  from dm assms(2) have "x \<in> dom (map_of dls)" by simp
  then obtain dl where dl: "map_of dls x = Some dl" by blast
  from ev[OF dl] assms(3) dl show ?thesis
    by (simp add: eval_loader_def)
qed

theorem load_datasets_eval_phases_witness:
  "\<exists>dls rv sv w' dl.
     load_datasets ex_X (ex_config (PStr ''train'') (PStr ''vocab.pkl'')) [''train'', ''val''] None w0
       = (Inr (dls, rv, sv), w') \<and>
     map_of dls ''val'' = Some dl \<and> dl_sampler dl = None \<and> \<not> dl_shuffle dl"
proof -
  have "\<exists>dls rv sv w'.
     load_datasets ex_X (ex_config (PStr ''train'') (PStr ''vocab.pkl'')) [''train'', ''val''] None w0
       = (Inr (dls, rv, sv), w')"
    by (simp add: eval_defs)
  then obtain dls rv sv w' where run:
    "load_datasets ex_X (ex_config (PStr ''train'') (PStr ''vocab.pkl'')) [''train'', ''val''] None w0
       = (Inr (dls, rv, sv), w')"
    by blast
  from load_datasets_eval_phases[OF run, of "''val''"]
  have "\<exists>dl. map_of dls ''val'' = Some dl \<and> dl_sampler dl = None \<and> \<not> dl_shuffle dl"
    by simp
  with run show ?thesis by blast
qed

text \<open>
  Claim C5, as amended. A \<^verbatim>\<open>mode\<close> that is neither \<^verbatim>\<open>train\<close> nor \<^verbatim>\<open>test\<close> is not rejected
  at startup: \<open>main\<close> loads the vocabularies and the \<^verbatim>\<open>train\<close> and \<^verbatim>\<open>val\<close> datasets and
  builds the model as it does for training, and only then logs the line that names the
  invalid mode and returns normally, without reloading, training or testing. The
  counterexample is a run with mode \<^verbatim>\<open>predict\<close> that returns normally after unpickling
  a vocabulary, constructing a dataset and constructing the model.
\<close>

theorem main_invalid_mode:
  assumes "getitem config ''save_dir'' = Inr sd"
    and "join X sd (PStr ''log'') = Inr lf"
    and "getitem config ''mode'' = Inr mode"
    and "mode \<noteq> PStr ''train''" and "mode \<noteq> PStr ''test''"
  shows "main X config w =
    (case load_datasets X config [''train'', ''val''] (Some lf)
            (w\<lparr>trace := trace w @ [Log (MsgConfig config) (Some lf)]\<rparr>) of
       (Inl e, w1) \<Rightarrow> (Inl e, w1)
     | (Inr (dls, rv, sv), w1) \<Rightarrow>
        (case build_model X config rv sv (Some lf) w1 of
           (Inl e, w2) \<Rightarrow> (Inl e, w2)
         | (Inr (model, config'), w2) \<Rightarrow>
             (Inr (), w2\<lparr>trace := trace w2 @ [Log (MsgInvalidMode mode) (Some lf)]\<rparr>)))"
proof -
  let ?w0 = "w\<lparr>trace := trace w @ [Log (MsgConfig config) (Some lf)]\<rparr>"
  obtain r1 w1 where ld: "load_datasets X config [''train'', ''val''] (Some lf) ?w0 = (r1, w1)"
    by (cases "load_datasets X config [''train'', ''val''] (Some lf) ?w0")
  show ?thesis
  proof (cases r1)
    case (Inl e)
    with ld assms show ?thesis
      by (simp add: main_def bnd_simps bnd_run_Inl)
  next
    case (Inr a)
    obtain dls rv sv where a: "a = (dls, rv, sv)" by (cases a)
    obtain r2 w2 where bm: "build_model X config rv sv (Some lf) w1 = (r2, w2)"
      by (cases "build_model X config rv sv (Some lf) w1")
    show ?thesis
    proof (cases r2)
      case (Inl e)
      with ld bm assms Inr a show ?thesis
        by (simp add: main_def bnd_simps bnd_run_Inl bnd_run_Inr)
    next
      case Inr2: (Inr b)
      obtain model config' where b: "b = (model, config')" by (cases b)
      have "getitem config' ''mode'' = Inr mode"
        using build_model_config_other[of X config rv sv "Some lf" w1 model config' w2 "''mode''"]
          bm Inr2 b assms(3) by simp
      with ld bm assms Inr a Inr2 b show ?thesis
        by (simp add: main_def bnd_simps bnd_run_Inr log'_def emit_def)
    qed
  qed
qed

theorem main_invalid_mode_witness:
  "main ex_X (ex_config (PStr ''predict'') (PStr ''vocab.pkl'')) w0 =
    (case load_datasets ex_X (ex_config (PStr ''predict'') (PStr ''vocab.pkl'')) [''train'', ''val'']
            (Some ''out/log'')
            (w0\<lparr>trace := trace w0 @
                [Log (MsgConfig (ex_config (PStr ''predict'') (PStr ''vocab.pkl''))) (Some ''out/log'')]\<rparr>) of
       (Inl e, w1) \<Rightarrow> (Inl e, w1)
     | (Inr (dls, rv, sv), w1) \<Rightarrow>
        (case build_model ex_X (ex_config (PStr ''predict'') (PStr ''vocab.pkl'')) rv sv (Some ''out/log'') w1 of
           (Inl e, w2) \<Rightarrow> (Inl e, w2)
         | (Inr (model, config'), w2) \<Rightarrow>
             (Inr (), w2\<lparr>trace := trace w2 @ [Log (MsgInvalidMode (PStr ''predict'')) (Some ''out/log'')]\<rparr>)))"
  using main_invalid_mode[of "ex_config (PStr ''predict'') (PStr ''vocab.pkl'')" "PStr ''out''" ex_X
          "''out/log''" "PStr ''predict''" w0]
  by (simp add: ex_config_def ex_dict_def ex_X_def)

theorem main_invalid_mode_counterexample:
  "getitem (ex_config (PStr ''predict'') (PStr ''vocab.pkl'')) ''mode'' = Inr (PStr ''predict'') \<and>
   fst (main ex_X (ex_config (PStr ''predict'') (PStr ''vocab.pkl'')) w0) = Inr () \<and>
   PickleLoad ''data/vocab.pkl''
     \<in> set (trace (snd (main ex_X (ex_config (PStr ''predict'') (PStr ''vocab.pkl'')) w0))) \<and>
   NewReviewsDataset ''train'' ''data/train.json''
     \<in> set (trace (snd (main ex_X (ex_config (PStr ''predict'') (PStr ''vocab.pkl'')) w0))) \<and>
   NewHAN [(''use_summary'', PBool True), (''review_vocab_size'', PInt 2),
           (''summary_vocab_size'', PInt 2), (''use_gpu'', PBool True)]
     \<in> set (trace (snd (main ex_X (ex_config (PStr ''predict'') (PStr ''vocab.pkl'')) w0)))"
  by (simp add: eval_defs)

text \<open>
  Claim C6. In every run of \<open>build_model\<close>, whether it returns or raises, a transfer to
  the accelerator is the last step of the call: it is applied to the model that
  \<^verbatim>\<open>HAN\<close> constructed and that then received the review vectors and, when the summary
  copy was made, the summary vectors; what the transfer returns is what \<open>build_model\<close>
  returns, and what it raises is what \<open>build_model\<close> raises. No copy and no other
  transfer follows it. When \<^verbatim>\<open>use_gpu\<close> is true and \<open>build_model\<close> returns, the
  transfer has taken place.
\<close>

theorem build_model_cuda_last:
  assumes "build_model X config rv sv logfile w = (r, w')"
  shows "\<exists>es. trace w' = trace w @ es \<and>
           (ToCuda \<in> set es \<longrightarrow>
              (\<exists>pre kw m0 m1 m2. es = pre @ [ToCuda] \<and> ToCuda \<notin> set pre \<and>
                  CopyReviewVectors (oid rv) \<in> set pre \<and>
                  filter is_copy pre = filter is_copy es \<and>
                  HAN X kw = Inr m0 \<and>
                  copy_review_lookup X m0 (vectors rv) = Inr m1 \<and>
                  (if CopySummaryVectors (oid sv) \<in> set pre
                   then copy_summary_lookup X m1 (vectors sv) = Inr m2 else m2 = m1) \<and>
                  (case r of Inl e \<Rightarrow> cuda X m2 = Inl e
                   | Inr (model, config') \<Rightarrow> cuda X m2 = Inr model))) \<and>
           (\<forall>g model config'. getitem config ''use_gpu'' = Inr g \<and> truthy g \<and> r = Inr (model, config')
               \<longrightarrow> ToCuda \<in> set es)"
  using assms
  by (auto simp: build_model_def prog_defs split: sum.splits if_splits; blast)

theorem build_model_cuda_last_witness:
  "\<exists>pre config' w' m2.
     build_model ex_X (ex_config (PStr ''train'') (PStr ''vocab.pkl'')) (ex_vocab 0) (ex_vocab 1) None w0
       = (Inr (27, config'), w') \<and>
     trace w' = pre @ [ToCuda] \<and> ToCuda \<notin> set pre \<and> CopyReviewVectors 0 \<in> set pre \<and>
     CopySummaryVectors 1 \<in> set pre \<and>
     copy_summary_lookup ex_X 21 (vectors (ex_vocab 1)) = Inr m2 \<and> cuda ex_X m2 = Inr 27"
proof -
  let ?cfg = "ex_config (PStr ''train'') (PStr ''vocab.pkl'')"
  have "\<exists>config' w'. build_model ex_X ?cfg (ex_vocab 0) (ex_vocab 1) None w0 = (Inr (27, config'), w')"
    by (simp add: eval_defs)
  then obtain config' w' where
    run: "build_model ex_X ?cfg (ex_vocab 0) (ex_vocab 1) None w0 = (Inr (27, config'), w')"
    by blast
  have g: "getitem ?cfg ''use_gpu'' = Inr (PBool True)"
    by (simp add: ex_config_def ex_dict_def)
  from build_model_cuda_last[OF run] g obtain pre kw m0 m1 m2 where
    "trace w' = pre @ [ToCuda]" "ToCuda \<notin> set pre" "CopyReviewVectors 0 \<in> set pre"
    "filter is_copy pre = filter is_copy (pre @ [ToCuda])"
    "HAN ex_X kw = Inr m0" "copy_review_lookup ex_X m0 (vectors (ex_vocab 0)) = Inr m1"
    "if CopySummaryVectors 1 \<in> set pre
     then copy_summary_lookup ex_X m1 (vectors (ex_vocab 1)) = Inr m2 else m2 = m1"
    "cuda ex_X m2 = Inr 27"
    by (auto simp: w0_def ex_vocab_def)
  moreover from this have "m0 = 20" "m1 = 21" "m2 = 23" "CopySummaryVectors 1 \<in> set pre"
    by (auto simp: ex_X_def ex_vocab_def split: if_splits)
  ultimately show ?thesis using run by auto
qed



text \<open>
  Claim C8. In training mode, once the datasets are loaded and the model is built, an
  optimizer class tag other than \<^verbatim>\<open>sgd\<close> and \<^verbatim>\<open>rmsprop\<close> makes \<open>main\<close> construct an
  Adam optimizer from the configured parameters and continue with it; the tag itself
  raises nothing.
\<close>

theorem main_optimizer_fallback:
  assumes "getitem config ''save_dir'' = Inr sd"
    and "join X sd (PStr ''log'') = Inr lf"
    and "getitem config ''mode'' = Inr (PStr ''train'')"
    and "load_datasets X config [''train'', ''val''] (Some lf)
            (w\<lparr>trace := trace w @ [Log (MsgConfig config) (Some lf)]\<rparr>) = (Inr (dls, rv, sv), w1)"
    and "build_model X config rv sv (Some lf) w1 = (Inr (model, config'), w2)"
    and "getitem config ''optim'' = Inr optim"
    and "getitem optim ''class'' = Inr cls"
    and "cls \<noteq> PStr ''sgd''" and "cls \<noteq> PStr ''rmsprop''"
    and "getitem optim ''params'' = Inr (PDict kw)"
  shows "main X config w =
           bnd (call (NewOptimizer Adam (PDict kw)) (new_optimizer X Adam model kw))
               (main_train X config' model dls lf) w2"
proof -
  have "getitem config' ''mode'' = Inr (PStr ''train'')" "getitem config' ''optim'' = Inr optim"
    using build_model_config_other[OF assms(5)] assms(3,6) by simp_all
  then show ?thesis
    using assms
    by (simp add: main_def bnd_of_result_Inr bnd_log bnd_run_Inr)
qed

theorem main_optimizer_fallback_witness:
  "\<exists>dls model config' w2.
     main ex_X (ex_config (PStr ''train'') (PStr ''vocab.pkl'')) w0 =
       bnd (call (NewOptimizer Adam (PDict [(''lr'', PFloat (1 / 100))]))
              (new_optimizer ex_X Adam model [(''lr'', PFloat (1 / 100))]))
           (main_train ex_X config' model dls ''out/log'') w2"
proof -
  let ?cfg = "ex_config (PStr ''train'') (PStr ''vocab.pkl'')"
  let ?w = "w0\<lparr>trace := trace w0 @ [Log (MsgConfig ?cfg) (Some ''out/log'')]\<rparr>"
  have "\<exists>dls rv sv w1. load_datasets ex_X ?cfg [''train'', ''val''] (Some ''out/log'') ?w
           = (Inr (dls, rv, sv), w1)"
    by (simp add: eval_defs)
  then obtain dls rv sv w1 where ld:
    "load_datasets ex_X ?cfg [''train'', ''val''] (Some ''out/log'') ?w = (Inr (dls, rv, sv), w1)"
    by blast
  have "\<exists>model config' w2. build_model ex_X ?cfg rv sv (Some ''out/log'') w1 = (Inr (model, config'), w2)"
    by (simp add: eval_defs)
  then obtain model config' w2 where bm:
    "build_model ex_X ?cfg rv sv (Some ''out/log'') w1 = (Inr (model, config'), w2)"
    by blast
  have "main ex_X ?cfg w0 =
       bnd (call (NewOptimizer Adam (PDict [(''lr'', PFloat (1 / 100))]))
              (new_optimizer ex_X Adam model [(''lr'', PFloat (1 / 100))]))
           (main_train ex_X config' model dls ''out/log'') w2"
    by (rule main_optimizer_fallback[OF _ _ _ ld bm,
          of "PStr ''out''"
             "PDict [(''class'', PStr ''adagrad''), (''params'', PDict [(''lr'', PFloat (1 / 100))]),
                     (''scheduler'', PDict [(''patience'', PInt 2), (''factor'', PFloat (1 / 2))])]"
             "PStr ''adagrad''"])
       (simp_all add: ex_config_def ex_dict_def ex_X_def)
  then show ?thesis by blast
qed

text \<open>
  Claim C9. After \<open>build_model\<close> has returned, the caller's configuration holds, under
  \<^verbatim>\<open>model.params\<close>, \<^verbatim>\<open>review_vocab_size\<close> and \<^verbatim>\<open>summary_vocab_size\<close> (the lengths of the
  two vocabularies), \<^verbatim>\<open>use_gpu\<close> (the top-level flag) and, when it was absent,
  \<^verbatim>\<open>combined_lookup = False\<close>; every other key is as before. The configuration differs
  from the one passed in as soon as one of these four entries was absent or different.
\<close>

theorem build_model_mutates_config:
  assumes run: "build_model X (PDict c) rv sv logfile w = (Inr (model, config'), w')"
      and m: "map_of c ''model'' = Some (PDict m)"
      and ps: "map_of m ''params'' = Some (PDict ps)"
      and g: "map_of c ''use_gpu'' = Some g"
      and us: "map_of ps ''use_summary'' = Some us"
  shows "\<exists>m' ps'. getitem config' ''model'' = Inr (PDict m') \<and> map_of m' ''params'' = Some (PDict ps') \<and>
           map_of ps' ''review_vocab_size'' = Some (PInt (int (vocab_len rv))) \<and>
           map_of ps' ''summary_vocab_size'' = Some (PInt (int (vocab_len sv))) \<and>
           map_of ps' ''use_gpu'' = Some g \<and>
           map_of ps' ''combined_lookup'' =
             (case map_of ps ''combined_lookup'' of None \<Rightarrow> Some (PBool False) | Some cl \<Rightarrow> Some cl) \<and>
           (\<forall>k. k \<notin> {''review_vocab_size'', ''summary_vocab_size'', ''use_gpu'', ''combined_lookup''}
                \<longrightarrow> map_of ps' k = map_of ps k) \<and>
           (\<forall>k. k \<noteq> ''params'' \<longrightarrow> map_of m' k = map_of m k) \<and>
           (\<forall>k. k \<noteq> ''model'' \<longrightarrow> getitem config' k = getitem (PDict c) k) \<and>
           (map_of ps ''review_vocab_size'' \<noteq> Some (PInt (int (vocab_len rv))) \<or>
            map_of ps ''summary_vocab_size'' \<noteq> Some (PInt (int (vocab_len sv))) \<or>
            map_of ps ''use_gpu'' \<noteq> Some g \<or> map_of ps ''combined_lookup'' = None
              \<longrightarrow> config' \<noteq> PDict c)"
proof -
  define ps' where "ps' = (if map_of ps ''combined_lookup'' = None
              then AList.update ''combined_lookup'' (PBool False)
                     (written_params ps (vocab_len rv) (vocab_len sv) g)
              else written_params ps (vocab_len rv) (vocab_len sv) g)"
  define m' where "m' = AList.update ''params'' (PDict ps') m"
  have c': "config' = PDict (AList.update ''model'' (PDict m') c)"
    using build_model_run(2)[OF assms] by (simp only: m'_def ps'_def)
  have 1: "getitem config' ''model'' = Inr (PDict m')"
    by (simp add: c' update_conv')
  have 2: "map_of m' ''params'' = Some (PDict ps')"
    by (simp add: m'_def update_conv')
  have 3: "map_of ps' ''review_vocab_size'' = Some (PInt (int (vocab_len rv)))"
    by (simp add: ps'_def written_params_def update_conv')
  have 4: "map_of ps' ''summary_vocab_size'' = Some (PInt (int (vocab_len sv)))"
    by (simp add: ps'_def written_params_def update_conv')
  have 5: "map_of ps' ''use_gpu'' = Some g"
    by (simp add: ps'_def written_params_def update_conv')
  have 6: "map_of ps' ''combined_lookup'' =
             (case map_of ps ''combined_lookup'' of None \<Rightarrow> Some (PBool False) | Some cl \<Rightarrow> Some cl)"
    by (cases "map_of ps ''combined_lookup''") (simp_all add: ps'_def written_params_def update_conv')
  have 7: "map_of ps' k = map_of ps k"
    if "k \<notin> {''review_vocab_size'', ''summary_vocab_size'', ''use_gpu'', ''combined_lookup''}" for k
    using that by (simp add: ps'_def written_params_def update_conv')
  have 8: "map_of m' k = map_of m k" if "k \<noteq> ''params''" for k
    using that by (simp add: m'_def update_conv')
  have 9: "getitem config' k = getitem (PDict c) k" if "k \<noteq> ''model''" for k
    using that by (simp add: c' update_conv')
  have 10: "config' \<noteq> PDict c"
    if "map_of ps ''review_vocab_size'' \<noteq> Some (PInt (int (vocab_len rv))) \<or>
            map_of ps ''summary_vocab_size'' \<noteq> Some (PInt (int (vocab_len sv))) \<or>
            map_of ps ''use_gpu'' \<noteq> Some g \<or> map_of ps ''combined_lookup'' = None"
  proof
    assume eq: "config' = PDict c"
    from 1 have "getitem (PDict c) ''model'' = Inr (PDict m')" unfolding eq .
    with m have "m' = m" by simp
    with 2 ps have "ps' = ps" by simp
    with 3 4 5 6 that show False by (auto split: option.splits)
  qed
  show ?thesis
    using 1 2 3 4 5 6 7 8 9 10
    by (intro exI[of _ m'] exI[of _ ps'] conjI allI impI) assumption+
qed

theorem build_model_mutates_config_witness:
  "\<exists>model config' w' m' ps'.
     build_model ex_X (ex_config (PStr ''train'') (PStr ''vocab.pkl'')) (ex_vocab 0) (ex_vocab 1) None w0
       = (Inr (model, config'), w') \<and>
     getitem config' ''model'' = Inr (PDict m') \<and> map_of m' ''params'' = Some (PDict ps') \<and>
     map_of ps' ''review_vocab_size'' = Some (PInt 2) \<and>
     map_of ps' ''summary_vocab_size'' = Some (PInt 2) \<and>
     map_of ps' ''use_gpu'' = Some (PBool True) \<and>
     map_of ps' ''combined_lookup'' = Some (PBool False) \<and>
     config' \<noteq> ex_config (PStr ''train'') (PStr ''vocab.pkl'')"
proof -
  have "\<exists>model config' w'.
     build_model ex_X (ex_config (PStr ''train'') (PStr ''vocab.pkl'')) (ex_vocab 0) (ex_vocab 1) None w0
       = (Inr (model, config'), w')"
    by (simp add: eval_defs)
  then obtain model config' w' where run:
    "build_model ex_X (PDict (ex_dict (PStr ''train'') (PStr ''vocab.pkl''))) (ex_vocab 0) (ex_vocab 1) None w0
       = (Inr (model, config'), w')"
    unfolding ex_config_def by blast
  from build_model_mutates_config[OF run,
      of "[(''params'', PDict [(''use_summary'', PBool True)]), (''reload'', PStr ''best.pt'')]"
         "[(''use_summary'', PBool True)]" "PBool True" "PBool True"]
  obtain m' ps' where
     "getitem config' ''model'' = Inr (PDict m')" "map_of m' ''params'' = Some (PDict ps')"
     "map_of ps' ''review_vocab_size'' = Some (PInt 2)"
     "map_of ps' ''summary_vocab_size'' = Some (PInt 2)"
     "map_of ps' ''use_gpu'' = Some (PBool True)"
     "map_of ps' ''combined_lookup'' = Some (PBool False)"
     "config' \<noteq> PDict (ex_dict (PStr ''train'') (PStr ''vocab.pkl''))"
    by (auto simp: ex_dict_def ex_vocab_def vocab_len_def)
  with run show ?thesis unfolding ex_config_def by blast
qed

text \<open>
  Claim C10. Once the configuration is loaded, the first thing the script does with it
  is to replace \<^verbatim>\<open>use_gpu\<close> by \<^verbatim>\<open>use_gpu and torch.cuda.is_available()\<close>, which is true
  exactly when the configured value is true and an accelerator is available. The
  configuration that \<open>startup\<close> hands over has this entry, the rest of the run is \<open>main\<close>
  on that configuration, \<open>main\<close> logs it, and every configuration logged has this entry.
  Hence in a run without an accelerator no transfer of the model to the device takes
  place, whatever the configuration says and however the run ends.
\<close>

theorem script_gpu_flag:
  assumes "script X a w = (r, w')"
  shows "\<exists>es. trace w' = trace w @ es \<and>
           (\<forall>c lf. Log (MsgConfig c) lf \<in> set es \<longrightarrow>
              (\<exists>c0 g. yaml_load X (arg_config a) = Inr c0 \<and> getitem c0 ''use_gpu'' = Inr g \<and>
                 getitem c ''use_gpu'' = Inr (py_and g (PBool (cuda_is_available X))) \<and>
                 (truthy (py_and g (PBool (cuda_is_available X))) \<longleftrightarrow>
                    truthy g \<and> cuda_is_available X))) \<and>
           (\<not> cuda_is_available X \<longrightarrow> ToCuda \<notin> set es) \<and>
           (\<forall>cfg w1. startup X a w = (Inr cfg, w1) \<longrightarrow>
              (\<exists>c0 g. yaml_load X (arg_config a) = Inr c0 \<and> getitem c0 ''use_gpu'' = Inr g \<and>
                 getitem cfg ''use_gpu'' = Inr (py_and g (PBool (cuda_is_available X))) \<and>
                 (\<not> truthy (py_optstr (arg_testfile a)) \<longrightarrow>
                    setitem c0 ''use_gpu'' (py_and g (PBool (cuda_is_available X))) = Inr cfg)) \<and>
              main X cfg w1 = (r, w') \<and>
              (\<forall>sd lf. getitem cfg ''save_dir'' = Inr sd \<and> join X sd (PStr ''log'') = Inr lf \<longrightarrow>
                 Log (MsgConfig cfg) (Some lf) \<in> set es))"
proof -
  from emitsD[OF script_emits assms] obtain es where
    es: "trace w' = trace w @ es"
    and all: "list_all (\<lambda>e. (\<forall>c lf. e = Log (MsgConfig c) lf \<longrightarrow> startup_flag X a c) \<and>
               (\<not> cuda_is_available X \<longrightarrow> e \<noteq> ToCuda)) es" by blast
  have flag: "startup_flag X a c \<Longrightarrow>
      \<exists>c0 g. yaml_load X (arg_config a) = Inr c0 \<and> getitem c0 ''use_gpu'' = Inr g \<and>
              getitem c ''use_gpu'' = Inr (py_and g (PBool (cuda_is_available X)))" for c
    by (auto simp: startup_flag_def split: sum.splits)
  have 1: "\<forall>c lf. Log (MsgConfig c) lf \<in> set es \<longrightarrow>
              (\<exists>c0 g. yaml_load X (arg_config a) = Inr c0 \<and> getitem c0 ''use_gpu'' = Inr g \<and>
                 getitem c ''use_gpu'' = Inr (py_and g (PBool (cuda_is_available X))) \<and>
                 (truthy (py_and g (PBool (cuda_is_available X))) \<longleftrightarrow>
                    truthy g \<and> cuda_is_available X))"
    using all flag by (fastforce simp: list_all_iff truthy_py_and)
  have 2: "\<not> cuda_is_available X \<longrightarrow> ToCuda \<notin> set es"
    using all by (auto simp: list_all_iff)
  have 3: "\<forall>cfg w1. startup X a w = (Inr cfg, w1) \<longrightarrow>
              (\<exists>c0 g. yaml_load X (arg_config a) = Inr c0 \<and> getitem c0 ''use_gpu'' = Inr g \<and>
                 getitem cfg ''use_gpu'' = Inr (py_and g (PBool (cuda_is_available X))) \<and>
                 (\<not> truthy (py_optstr (arg_testfile a)) \<longrightarrow>
                    setitem c0 ''use_gpu'' (py_and g (PBool (cuda_is_available X))) = Inr cfg)) \<and>
              main X cfg w1 = (r, w') \<and>
              (\<forall>sd lf. getitem cfg ''save_dir'' = Inr sd \<and> join X sd (PStr ''log'') = Inr lf \<longrightarrow>
                 Log (MsgConfig cfg) (Some lf) \<in> set es)"
  proof (intro allI impI)
    fix cfg w1
    assume st: "startup X a w = (Inr cfg, w1)"
    from assms st have mn: "main X cfg w1 = (r, w')"
      by (simp add: script_def bnd_run_Inr)
    from emitsD[OF quiet_startup st] obtain es0 where es0: "trace w1 = trace w @ es0" by blast
    have lg: "Log (MsgConfig cfg) (Some lf) \<in> set es"
      if "getitem cfg ''save_dir'' = Inr sd \<and> join X sd (PStr ''log'') = Inr lf" for sd lf
    proof -
      from main_logs_config[OF mn] that obtain es1 where
        "trace w' = trace w1 @ Log (MsgConfig cfg) (Some lf) # es1" by blast
      with es es0 have "es = es0 @ Log (MsgConfig cfg) (Some lf) # es1" by simp
      then show ?thesis by simp
    qed
    from postD[OF post_startup st] mn lg
    show "(\<exists>c0 g. yaml_load X (arg_config a) = Inr c0 \<and> getitem c0 ''use_gpu'' = Inr g \<and>
                 getitem cfg ''use_gpu'' = Inr (py_and g (PBool (cuda_is_available X))) \<and>
                 (\<not> truthy (py_optstr (arg_testfile a)) \<longrightarrow>
                    setitem c0 ''use_gpu'' (py_and g (PBool (cuda_is_available X))) = Inr cfg)) \<and>
              main X cfg w1 = (r, w') \<and>
              (\<forall>sd lf. getitem cfg ''save_dir'' = Inr sd \<and> join X sd (PStr ''log'') = Inr lf \<longrightarrow>
                 Log (MsgConfig cfg) (Some lf) \<in> set es)"
      by blast
  qed
  from es 1 2 3 show ?thesis by blast
qed

theorem script_gpu_flag_witness:
  "\<not> cuda_is_available (ex_X\<lparr>cuda_is_available := False\<rparr>) \<and>
   getitem (ex_config (PStr ''train'') (PStr ''vocab.pkl'')) ''use_gpu'' = Inr (PBool True) \<and>
   fst (startup (ex_X\<lparr>cuda_is_available := False\<rparr>) ex_args w0) =
     Inr (PDict (AList.update ''use_gpu'' (PBool False) (ex_dict (PStr ''train'') (PStr ''vocab.pkl'')))) \<and>
   fst (script (ex_X\<lparr>cuda_is_available := False\<rparr>) ex_args w0) = Inr () \<and>
   Log (MsgConfig (PDict (AList.update ''use_gpu'' (PBool False)
                            (ex_dict (PStr ''train'') (PStr ''vocab.pkl'')))))
       (Some ''out/log'')
     \<in> set (trace (snd (script (ex_X\<lparr>cuda_is_available := False\<rparr>) ex_args w0))) \<and>
   ToCuda \<notin> set (trace (snd (script (ex_X\<lparr>cuda_is_available := False\<rparr>) ex_args w0)))"
proof -
  let ?X = "ex_X\<lparr>cuda_is_available := False\<rparr>"
  let ?cfg = "PDict (AList.update ''use_gpu'' (PBool False) (ex_dict (PStr ''train'') (PStr ''vocab.pkl'')))"
  have st: "startup ?X ex_args w0 =
      (Inr ?cfg, w0\<lparr>trace := [YamlLoad ''config.yaml'', ManualSeed (PInt 1),
                              CudaManualSeed (PInt 1), Makedirs (PStr ''out'')]\<rparr>)"
    by (simp add: startup_def ex_defs py_optstr_def py_and_def)
  have 1: "fst (script ?X ex_args w0) = Inr ()"
    by (simp add: eval_defs py_optstr_def py_and_def)
  have sd: "getitem ?cfg ''save_dir'' = Inr (PStr ''out'')"
    "join ?X (PStr ''out'') (PStr ''log'') = Inr ''out/log''"
    by (simp_all add: ex_dict_def ex_X_def)
  have tw: "trace w0 = []" by (simp add: w0_def)
  from script_gpu_flag[where X = ?X and a = ex_args and w = w0, OF surjective_pairing]
  have 2: "Log (MsgConfig ?cfg) (Some ''out/log'') \<in> set (trace (snd (script ?X ex_args w0))) \<and>
           ToCuda \<notin> set (trace (snd (script ?X ex_args w0)))"
    by (auto simp: st sd tw simp del: getitem.simps join.simps)
  have 3: "getitem (ex_config (PStr ''train'') (PStr ''vocab.pkl'')) ''use_gpu'' = Inr (PBool True)"
    by (simp add: ex_config_def ex_dict_def)
  from 1 2 3 st show ?thesis by simp
qed

end
